theory Spec2Isabelle
  imports Main
begin

section \<open>The hybrid MCP gateway (bin/ruv-swarm-hybrid.js)\<close>

text \<open>
  A shallow embedding of the gateway script: the stdio framer of \<open>startStdioServer\<close>, the
  shared dispatcher \<open>handleMcpRequest\<close>, the SSE bookkeeping of \<open>startHttpServer\<close> and the
  lifecycle of \<open>main\<close>. JavaScript values are a datatype, thrown errors are the left side
  of a sum, and every module-level variable the script mutates is a field of an explicit
  state that each operation takes and returns.
\<close>

subsection \<open>JavaScript values\<close>

text \<open>
  The values \<open>JSON.parse\<close> can produce, together with \<open>undefined\<close> (what reading a
  missing property gives). A number is kept as its canonical JavaScript rendering, the
  text \<open>String(n)\<close> produces, which is all the script ever does with a number
  (it echoes ids and interpolates into template literals).
\<close>

datatype jsval =
    JUndefined
  | JNull
  | JBool bool
  | JNum string
  | JStr string
  | JArr "jsval list"
  | JObj "(string \<times> jsval) list"

text \<open>
  \<open>Error\<close> objects, each with its \<open>message\<close>: what the built-ins and property reads
  throw.
\<close>

datatype js_error = SyntaxError string | TypeError string | Error string

fun message_of :: "js_error \<Rightarrow> string" where
  "message_of (SyntaxError m) = m"
| "message_of (TypeError m) = m"
| "message_of (Error m) = m"

text \<open>
  What a \<open>catch\<close> may receive: an \<open>Error\<close> object, or any other value that a tool
  handler throws or rejects with (\<open>throw null\<close>, \<open>reject()\<close>, \<open>throw 'text'\<close>).
\<close>

datatype thrown = Fault js_error | Thrown jsval

fun join_with :: "string \<Rightarrow> string list \<Rightarrow> string" where
  "join_with sep [] = []"
| "join_with sep [x] = x"
| "join_with sep (x # y # ys) = x @ sep @ join_with sep (y # ys)"

definition cannot_convert :: js_error where
  "cannot_convert = TypeError ''Cannot convert object to primitive value''"

text \<open>
  \<open>ToString\<close>, as a template literal \<open>`${v}`\<close> and a computed property key \<open>o[v]\<close>
  apply it. An object is converted by its \<open>toString\<close>: a parsed object that has a member
  of that name has one that cannot be called, and the conversion throws; any other
  parsed object gives \<open>[object Object]\<close>. An array joins the conversions of its elements
  with commas, \<open>null\<close> and \<open>undefined\<close> elements as the empty string.
\<close>

fun to_str :: "jsval \<Rightarrow> js_error + string"
  and elems_str :: "jsval list \<Rightarrow> js_error + string list" where
  "to_str JUndefined = Inr ''undefined''"
| "to_str JNull = Inr ''null''"
| "to_str (JBool b) = Inr (if b then ''true'' else ''false'')"
| "to_str (JNum s) = Inr s"
| "to_str (JStr s) = Inr s"
| "to_str (JArr xs) =
     (case elems_str xs of Inl err \<Rightarrow> Inl err | Inr ss \<Rightarrow> Inr (join_with '','' ss))"
| "to_str (JObj kvs) =
     (if ''toString'' \<in> set (map fst kvs) then Inl cannot_convert
      else Inr ''[object Object]'')"
| "elems_str [] = Inr []"
| "elems_str (x # xs) =
     (case (if x = JNull \<or> x = JUndefined then Inr [] else to_str x) of
        Inl err \<Rightarrow> Inl err
      | Inr s \<Rightarrow>
          (case elems_str xs of Inl err \<Rightarrow> Inl err | Inr ss \<Rightarrow> Inr (s # ss)))"

text \<open>Truthiness, as \<open>||\<close> and \<open>if\<close> test it.\<close>

fun truthy :: "jsval \<Rightarrow> bool" where
  "truthy JUndefined = False"
| "truthy JNull = False"
| "truthy (JBool b) = b"
| "truthy (JNum s) = (s \<noteq> ''0'' \<and> s \<noteq> ''NaN'')"
| "truthy (JStr s) = (s \<noteq> [])"
| "truthy (JArr xs) = True"
| "truthy (JObj kvs) = True"

text \<open>
  Reading a property \<open>v.k\<close> for the keys the script reads (\<open>id\<close>, \<open>method\<close>,
  \<open>params\<close>, \<open>name\<close>, \<open>arguments\<close>, \<open>message\<close>): \<open>null\<close> and \<open>undefined\<close> throw a
  \<open>TypeError\<close>, an object gives the member or \<open>undefined\<close>, every other value
  has no property of these names. \<open>JSON.parse\<close> keeps the last of repeated keys.
\<close>

definition cannot_read :: "string \<Rightarrow> string \<Rightarrow> js_error" where
  "cannot_read v k =
     TypeError (''Cannot read properties of '' @ v @ '' (reading '' @
                [CHR 0x27] @ k @ [CHR 0x27] @ '')'')"

fun get_prop :: "jsval \<Rightarrow> string \<Rightarrow> js_error + jsval" where
  "get_prop JUndefined k = Inl (cannot_read ''undefined'' k)"
| "get_prop JNull k = Inl (cannot_read ''null'' k)"
| "get_prop (JObj kvs) k =
     (case map_of (rev kvs) k of None \<Rightarrow> Inr JUndefined | Some v \<Rightarrow> Inr v)"
| "get_prop v k = Inr JUndefined"

text \<open>
  \<open>error.message\<close> in a \<open>catch\<close>: the message of an \<open>Error\<close> object, the property of
  any other thrown value, and itself a \<open>TypeError\<close> when \<open>null\<close> or \<open>undefined\<close> was
  thrown.
\<close>

fun message_prop :: "thrown \<Rightarrow> js_error + jsval" where
  "message_prop (Fault err) = Inr (JStr (message_of err))"
| "message_prop (Thrown v) = get_prop v ''message''"

subsection \<open>The stdio framer: splitting and trimming\<close>

definition newline :: char where
  "newline = CHR 0x0A"

text \<open>
  \<open>s.split('\n')\<close>: the pieces between newlines, always at least one piece
  (\<open>''.split('\n')\<close> is \<open>['']\<close>).
\<close>

fun split_nl :: "string \<Rightarrow> string list" where
  "split_nl [] = [[]]"
| "split_nl (c # cs) =
     (if c = newline then [] # split_nl cs
      else (case split_nl cs of
              [] \<Rightarrow> [[c]]
            | l # ls \<Rightarrow> (c # l) # ls))"

text \<open>
  \<open>String.prototype.trim\<close> strips white space and line terminators from both ends.
  Of the code units below 256 these are tab, line feed, vertical tab, form feed,
  carriage return, space and the no-break space.
\<close>

definition is_space :: "char \<Rightarrow> bool" where
  "is_space c =
     (c = CHR 0x09 \<or> c = CHR 0x0A \<or> c = CHR 0x0B \<or> c = CHR 0x0C \<or>
      c = CHR 0x0D \<or> c = CHR 0x20 \<or> c = CHR 0xA0)"

definition trim :: "string \<Rightarrow> string" where
  "trim s = rev (dropWhile is_space (rev (dropWhile is_space s)))"

text \<open>\<open>if (line.trim())\<close>: a string is truthy when it is not empty.\<close>

definition non_blank :: "string \<Rightarrow> bool" where
  "non_blank line = (trim line \<noteq> [])"

text \<open>
  The synchronous head of the \<open>data\<close> handler:
  \<^verbatim>\<open>
  buffer += chunk;
  const lines = buffer.split('\n');
  buffer = lines.pop() || '';
  for (const line of lines) { if (line.trim()) { ... } }
  \<close>
  \<open>frame\<close> gives the lines the loop body runs on and the new buffer. \<open>pop\<close> on the
  result of \<open>split\<close> never sees an empty array, and \<open>'' || ''\<close> is \<open>''\<close>.
\<close>

definition frame :: "string \<Rightarrow> string \<Rightarrow> string list \<times> string" where
  "frame buffer chunk =
     (let lines = split_nl (buffer @ chunk)
      in (filter non_blank (butlast lines), last lines))"

text \<open>The framer over a sequence of chunks, collecting the lines it hands on.\<close>

fun frames :: "string \<Rightarrow> string list \<Rightarrow> string list \<times> string" where
  "frames buffer [] = ([], buffer)"
| "frames buffer (chunk # chunks) =
     (let (ls, b) = frame buffer chunk;
          (ls', b') = frames b chunks
      in (ls @ ls', b'))"

text \<open>
  The specification's words, independent of \<open>split\<close>: reading the stream one
  character at a time, a newline completes the line collected so far; what follows the
  last newline is the incomplete fragment.
\<close>

fun scan_lines :: "string \<Rightarrow> string \<Rightarrow> string list \<times> string" where
  "scan_lines cur [] = ([], cur)"
| "scan_lines cur (c # cs) =
     (if c = newline
      then (let (ls, f) = scan_lines [] cs in (cur # ls, f))
      else scan_lines (cur @ [c]) cs)"

definition complete_lines :: "string \<Rightarrow> string list" where
  "complete_lines stream = fst (scan_lines [] stream)"

definition incomplete_fragment :: "string \<Rightarrow> string" where
  "incomplete_fragment stream = snd (scan_lines [] stream)"

subsection \<open>Tool registries\<close>

text \<open>
  A tool handler is awaited: it resolves to a value or rejects with whatever it threw.
  A registry object is read by name, and \<open>typeof m === 'function'\<close> tells a handler from any other
  member; \<open>None\<close> is a name the object does not have.
\<close>

datatype outcome = Returns jsval | Throws thrown

type_synonym handler = "jsval \<Rightarrow> outcome"

datatype member = Fn handler | Val jsval

type_synonym registry = "string \<Rightarrow> member option"

text \<open>
  The lookup of \<open>tools/call\<close>:
  \<^verbatim>\<open>
  if (mcpTools && typeof mcpTools[toolName] === 'function') { ... mcpTools[toolName] ... }
  else if (typeof daaMcpTools[toolName] === 'function') { ... daaMcpTools[toolName] ... }
  \<close>
  \<open>mcpTools\<close> may be \<open>null\<close> (\<open>None\<close>); \<open>daaMcpTools\<close> is the module every caller has
  loaded through \<open>initializeSystem\<close> before it dispatches.
\<close>

datatype resolution = Primary handler | Secondary handler | NotFound

definition resolve :: "registry option \<Rightarrow> registry \<Rightarrow> string \<Rightarrow> resolution" where
  "resolve mcpTools daaMcpTools toolName =
     (case (case mcpTools of None \<Rightarrow> None | Some r \<Rightarrow> r toolName) of
        Some (Fn h) \<Rightarrow> Primary h
      | _ \<Rightarrow> (case daaMcpTools toolName of
                Some (Fn h) \<Rightarrow> Secondary h
              | _ \<Rightarrow> NotFound))"

text \<open>
  \<open>initializeSystem\<close> builds the registry every transport dispatches on: the
  \<open>EnhancedMCPTools\<close> instance, onto which each of ten DAA tool names is copied from
  \<open>daaMcpTools\<close> when \<open>daaMcpTools\<close> has a function of that name (bound to
  \<open>daaMcpTools\<close>, so the copy behaves as the original).
\<close>

definition daaToolNames :: "string list" where
  "daaToolNames =
     [''daa_init'', ''daa_agent_create'', ''daa_agent_adapt'', ''daa_workflow_create'',
      ''daa_workflow_execute'', ''daa_knowledge_share'', ''daa_learning_status'',
      ''daa_cognitive_pattern'', ''daa_meta_learning'', ''daa_performance_metrics'']"

definition initializeSystem :: "registry \<Rightarrow> registry \<Rightarrow> registry" where
  "initializeSystem mcpTools daa =
     (\<lambda>toolName.
        if toolName \<in> set daaToolNames
        then (case daa toolName of
                Some (Fn h) \<Rightarrow> Some (Fn h)
              | _ \<Rightarrow> mcpTools toolName)
        else mcpTools toolName)"

subsection \<open>The event emitter and the SSE clients\<close>

text \<open>
  What is written to a streaming response: \<open>event: <type>\ndata: <json>\n\n\<close>, or a
  comment line.
\<close>

datatype sse_frame = Event string jsval | Comment string

text \<open>
  \<open>sseClients\<close> is the \<open>Map\<close> from client id to response object, \<open>listeners\<close> the
  listeners of \<open>sseEventEmitter\<close> in registration order, each the event name it was
  registered under and the response its closure writes to. A response object is a
  number; \<open>wire\<close> records every \<open>res.write\<close>, and \<open>published\<close> every call of
  \<open>sseEventEmitter.emit\<close>, whether or not a listener heard it.
\<close>

record sse_state =
  sseClients :: "(string \<times> nat) list"
  listeners :: "(string \<times> nat) list"
  heartbeats :: "nat list"
  wire :: "(nat \<times> sse_frame) list"
  published :: "(string \<times> jsval) list"

fun map_set :: "'k \<Rightarrow> 'v \<Rightarrow> ('k \<times> 'v) list \<Rightarrow> ('k \<times> 'v) list" where
  "map_set k v [] = [(k, v)]"
| "map_set k v ((k', v') # m) = (if k' = k then (k, v) # m else (k', v') # map_set k v m)"

definition map_delete :: "'k \<Rightarrow> ('k \<times> 'v) list \<Rightarrow> ('k \<times> 'v) list" where
  "map_delete k m = filter (\<lambda>p. fst p \<noteq> k) m"

text \<open>\<open>sseEventEmitter.emit(eventType, data)\<close> calls the listeners of that name in order.\<close>

definition emit :: "string \<Rightarrow> jsval \<Rightarrow> sse_state \<Rightarrow> sse_state" where
  "emit eventType payload s =
     s\<lparr>published := published s @ [(eventType, payload)],
       wire := wire s @
          map (\<lambda>l. (snd l, Event (fst l) payload))
              (filter (\<lambda>l. fst l = eventType) (listeners s))\<rparr>"

text \<open>
  \<open>GET /events\<close>: the \<open>connected\<close> event, the entry in \<open>sseClients\<close>, the heartbeat
  timer and the four listeners. \<open>clientId\<close> is \<open>Date.now().toString()\<close> and \<open>now\<close> the
  ISO timestamp.
\<close>

definition sse_connect :: "string \<Rightarrow> string \<Rightarrow> nat \<Rightarrow> sse_state \<Rightarrow> sse_state" where
  "sse_connect clientId now res s =
     s\<lparr>wire := wire s @
          [(res, Event ''connected''
                   (JObj [(''clientId'', JStr clientId), (''timestamp'', JStr now)]))],
       sseClients := map_set clientId res (sseClients s),
       heartbeats := heartbeats s @ [res],
       listeners := listeners s @
          [(''swarm:update'', res), (''agent:spawn'', res),
           (''task:update'', res), (''performance:metrics'', res)]\<rparr>"

text \<open>The interval callback of a connection, while its timer runs.\<close>

definition sse_heartbeat :: "nat \<Rightarrow> sse_state \<Rightarrow> sse_state" where
  "sse_heartbeat res s =
     (if res \<in> set (heartbeats s)
      then s\<lparr>wire := wire s @ [(res, Comment ''heartbeat'')]\<rparr>
      else s)"

text \<open>
  The \<open>close\<close> handler of a connection:
  \<^verbatim>\<open>
  clearInterval(heartbeat);
  sseClients.delete(clientId);
  sseEventEmitter.removeAllListeners();
  \<close>
\<close>

definition sse_close :: "string \<Rightarrow> nat \<Rightarrow> sse_state \<Rightarrow> sse_state" where
  "sse_close clientId res s =
     s\<lparr>heartbeats := removeAll res (heartbeats s),
       sseClients := map_delete clientId (sseClients s),
       listeners := []\<rparr>"

definition stream_of :: "nat \<Rightarrow> sse_state \<Rightarrow> sse_frame list" where
  "stream_of res s = map snd (filter (\<lambda>w. fst w = res) (wire s))"

definition no_sse :: sse_state where
  "no_sse = \<lparr>sseClients = [], listeners = [], heartbeats = [], wire = [], published = []\<rparr>"

subsection \<open>The dispatcher\<close>

record error_object =
  code :: int
  message :: string
  data :: jsval

record response =
  jsonrpc :: string
  resp_id :: jsval
  result :: "jsval option"
  error :: "error_object option"

text \<open>
  What the script takes from its surroundings: \<open>JSON.parse\<close> and \<open>JSON.stringify\<close>
  (which throw), the version \<open>getVersion\<close> reads, and the two registries
  \<open>initializeSystem\<close> returns and loads.
\<close>

record env =
  json_parse :: "string \<Rightarrow> js_error + jsval"
  json_stringify :: "jsval \<Rightarrow> thrown + jsval"
  version :: string
  globalMCPTools :: "registry option"
  daaMcpTools :: registry

definition getToolDefinitions :: "jsval list" where
  "getToolDefinitions = []"

definition swarm_init_tool :: jsval where
  "swarm_init_tool =
     JObj [(''name'', JStr ''swarm_init''),
           (''description'', JStr ''Initialize a new swarm with specified topology''),
           (''inputSchema'', JObj
              [(''type'', JStr ''object''),
               (''properties'', JObj
                  [(''topology'', JObj
                      [(''type'', JStr ''string''),
                       (''enum'', JArr [JStr ''mesh'', JStr ''hierarchical'',
                                        JStr ''ring'', JStr ''star''])]),
                   (''maxAgents'', JObj
                      [(''type'', JStr ''number''), (''minimum'', JNum ''1''),
                       (''maximum'', JNum ''100''), (''default'', JNum ''5'')]),
                   (''strategy'', JObj
                      [(''type'', JStr ''string''),
                       (''enum'', JArr [JStr ''balanced'', JStr ''specialized'',
                                        JStr ''adaptive'']),
                       (''default'', JStr ''balanced'')])]),
               (''required'', JArr [JStr ''topology''])])]"

definition initialize_result :: "string \<Rightarrow> jsval" where
  "initialize_result v =
     JObj [(''protocolVersion'', JStr ''2024-11-05''),
           (''capabilities'', JObj
              [(''tools'', JObj []),
               (''resources'', JObj [(''list'', JBool True), (''read'', JBool True)])]),
           (''serverInfo'', JObj [(''name'', JStr ''ruv-swarm-hybrid''), (''version'', JStr v)])]"

definition method_not_found :: "string \<Rightarrow> error_object" where
  "method_not_found d = \<lparr>code = - 32601, message = ''Method not found'', data = JStr d\<rparr>"

text \<open>
  The \<open>catch\<close> of \<open>handleMcpRequest\<close>:
  \<^verbatim>\<open>
  catch (error) {
      response.error = { code: -32603, message: 'Internal error', data: error.message };
  }
  \<close>
  Reading the message of a thrown \<open>null\<close> or \<open>undefined\<close> throws in turn, and then the
  function rejects instead of returning the response.
\<close>

definition catch_fault :: "response \<Rightarrow> thrown \<Rightarrow> js_error + response" where
  "catch_fault response t =
     (case message_prop t of
        Inl err \<Rightarrow> Inl err
      | Inr d \<Rightarrow>
          Inr (response\<lparr>error := Some
                 \<lparr>code = - 32603, message = ''Internal error'', data = d\<rparr>\<rparr>))"

text \<open>
  The body of the \<open>try\<close> runs without interruption until it awaits a tool handler. It
  then has thrown, or has completed the response, or waits for the handler it has
  called: for the tool name, the arguments, and what the handler will settle to.
\<close>

datatype phase = Threw thrown | Answered response | Awaits jsval jsval outcome

text \<open>
  The \<open>tools/call\<close> case up to the \<open>await\<close>. The tool name becomes a property key in
  \<open>mcpTools[toolName]\<close> or, when \<open>mcpTools\<close> is \<open>null\<close>, in \<open>daaMcpTools[toolName]\<close>;
  when no registry has a function of that name, \<open>result\<close> stays \<open>null\<close> and the case
  ends in the error without awaiting anything.
\<close>

definition tools_call_start :: "env \<Rightarrow> jsval \<Rightarrow> registry option \<Rightarrow> response \<Rightarrow> phase" where
  "tools_call_start e request mcpTools response =
     (case get_prop request ''params'' of
        Inl err \<Rightarrow> Threw (Fault err)
      | Inr params \<Rightarrow>
     (case get_prop params ''name'' of
        Inl err \<Rightarrow> Threw (Fault err)
      | Inr toolName \<Rightarrow>
     (case get_prop params ''arguments'' of
        Inl err \<Rightarrow> Threw (Fault err)
      | Inr a \<Rightarrow>
     (let toolArgs = (if truthy a then a else JObj []) in
      case to_str toolName of
        Inl err \<Rightarrow> Threw (Fault err)
      | Inr key \<Rightarrow>
     (case resolve mcpTools (daaMcpTools e) key of
        Primary h \<Rightarrow> Awaits toolName toolArgs (h toolArgs)
      | Secondary h \<Rightarrow> Awaits toolName toolArgs (h toolArgs)
      | NotFound \<Rightarrow>
          Answered (response\<lparr>error := Some
            (method_not_found (''Unknown tool: '' @ key))\<rparr>))))))"

text \<open>
  The \<open>tools/call\<close> case from the moment the awaited handler settles, in the emitter
  state of that moment: a rejection is thrown into the \<open>catch\<close>; a value other than
  \<open>null\<close> is published when a client is connected and becomes the text of the result; a
  \<open>null\<close> is answered as an unknown tool.
\<close>

definition tools_call_finish ::
  "env \<Rightarrow> string \<Rightarrow> response \<Rightarrow> jsval \<Rightarrow> jsval \<Rightarrow> outcome \<Rightarrow> sse_state \<Rightarrow>
   (thrown + response) \<times> sse_state" where
  "tools_call_finish e now response toolName toolArgs settled s =
     (case settled of
        Throws t \<Rightarrow> (Inl t, s)
      | Returns r \<Rightarrow>
          if r \<noteq> JNull then
            (let s' = (if length (sseClients s) > 0
                       then emit ''tool:executed''
                              (JObj [(''tool'', toolName), (''args'', toolArgs),
                                     (''timestamp'', JStr now)]) s
                       else s)
             in case (case r of JStr t \<Rightarrow> Inr r | _ \<Rightarrow> json_stringify e r) of
                  Inl t \<Rightarrow> (Inl t, s')
                | Inr text \<Rightarrow>
                    (Inr (response\<lparr>result := Some
                       (JObj [(''content'',
                               JArr [JObj [(''type'', JStr ''text''), (''text'', text)]])])\<rparr>),
                     s'))
          else
            (case to_str toolName of
               Inl err \<Rightarrow> (Inl (Fault err), s)
             | Inr key \<Rightarrow>
                 (Inr (response\<lparr>error := Some
                    (method_not_found (''Unknown tool: '' @ key))\<rparr>), s)))"

text \<open>The switch on \<open>request.method\<close>, up to the first handler it awaits.\<close>

definition dispatch :: "env \<Rightarrow> jsval \<Rightarrow> registry option \<Rightarrow> response \<Rightarrow> phase" where
  "dispatch e request mcpTools response =
     (case get_prop request ''method'' of
        Inl err \<Rightarrow> Threw (Fault err)
      | Inr m \<Rightarrow>
          if m = JStr ''initialize'' then
            Answered (response\<lparr>result := Some (initialize_result (version e))\<rparr>)
          else if m = JStr ''tools/list'' then
            Answered (response\<lparr>result := Some
               (JObj [(''tools'', JArr (swarm_init_tool # getToolDefinitions))])\<rparr>)
          else if m = JStr ''tools/call'' then
            tools_call_start e request mcpTools response
          else
            (case to_str m of
               Inl err \<Rightarrow> Threw (Fault err)
             | Inr name \<Rightarrow>
                 Answered (response\<lparr>error := Some
                   (method_not_found (''Unknown method: '' @ name))\<rparr>)))"

text \<open>
  A call of \<open>handleMcpRequest\<close> up to its first suspension. The response object is
  built from \<open>request.id\<close> before the \<open>try\<close>, so reading the id of \<open>null\<close> rejects the
  call; otherwise the call has returned its response, or has rejected out of its
  \<open>catch\<close>, or is suspended with the response object it will complete.
\<close>

datatype started =
    Rejected js_error
  | Returned response
  | Suspended response jsval jsval outcome

definition start_request :: "env \<Rightarrow> jsval \<Rightarrow> registry option \<Rightarrow> started" where
  "start_request e request mcpTools =
     (case get_prop request ''id'' of
        Inl err \<Rightarrow> Rejected err
      | Inr i \<Rightarrow>
          (let response = \<lparr>jsonrpc = ''2.0'', resp_id = i, result = None, error = None\<rparr>
           in case dispatch e request mcpTools response of
                Threw t \<Rightarrow>
                  (case catch_fault response t of
                     Inl err \<Rightarrow> Rejected err
                   | Inr r \<Rightarrow> Returned r)
              | Answered r \<Rightarrow> Returned r
              | Awaits toolName toolArgs settled \<Rightarrow>
                  Suspended response toolName toolArgs settled))"

text \<open>The rest of a suspended call, once its handler has settled.\<close>

definition resume ::
  "env \<Rightarrow> string \<Rightarrow> response \<Rightarrow> jsval \<Rightarrow> jsval \<Rightarrow> outcome \<Rightarrow> sse_state \<Rightarrow>
   (js_error + response) \<times> sse_state" where
  "resume e now response toolName toolArgs settled s =
     (case tools_call_finish e now response toolName toolArgs settled s of
        (Inl t, s') \<Rightarrow> (catch_fault response t, s')
      | (Inr r, s') \<Rightarrow> (Inr r, s'))"

text \<open>
  \<open>handleMcpRequest\<close> as the dispatcher its callers await: what the call settles to,
  a rejection (\<open>Inl\<close>) or the response, and the emitter state it leaves, when the
  handler it awaits settles in emitter state \<open>s\<close> at time \<open>now\<close>.
\<close>

definition handleMcpRequest ::
  "env \<Rightarrow> string \<Rightarrow> jsval \<Rightarrow> registry option \<Rightarrow> sse_state \<Rightarrow>
   (js_error + response) \<times> sse_state" where
  "handleMcpRequest e now request mcpTools s =
     (case start_request e request mcpTools of
        Rejected err \<Rightarrow> (Inl err, s)
      | Returned r \<Rightarrow> (Inr r, s)
      | Suspended response toolName toolArgs settled \<Rightarrow>
          resume e now response toolName toolArgs settled s)"

subsection \<open>The process: stdio transport, HTTP transport, lifecycle\<close>

datatype stdout_line = Response response | Notification string jsval

text \<open>
  What the process does that can be observed, in order: the logger's record of a request
  read (\<open>logger.logMcp('in', ...)\<close>), of a response (\<open>logger.logMcp('out', ...)\<close>), of
  a line that could not be handled (\<open>logger.error('JSON parse error', ...)\<close>, with the
  first 100 characters of the line), and a line written to stdout.
\<close>

datatype trace_event =
    LogMcpIn jsval
  | LogMcpOut response
  | LogError string
  | StdoutWrite stdout_line

datatype http_body = ResultBody jsval | ErrorBody "error_object option" | ErrorMessage string

text \<open>
  A listener suspended at \<open>await handleMcpRequest(...)\<close>. The stdin \<open>data\<close> listener
  keeps the line it is at, the suspended call, and the lines of its chunk it has not
  reached yet; the \<open>end\<close> listener of a posted body keeps the suspended call.
\<close>

datatype task =
    StdioTask string response jsval jsval outcome "string list"
  | HttpTask response jsval jsval outcome

text \<open>
  The state of the process: whether the stdin listeners are registered, whether the HTTP
  server listens, whether the keep-alive interval runs, the framer's \<open>buffer\<close> and
  \<open>messageCount\<close>, the suspended listeners, the emitter and clients, the replies sent
  over HTTP, and the exit status once \<open>process.exit\<close> has run.
\<close>

record world =
  stdin_listening :: bool
  httpServer :: bool
  keep_alive :: bool
  buffer :: string
  messageCount :: nat
  pending :: "task list"
  trace :: "trace_event list"
  sse :: sse_state
  http_replies :: "(nat \<times> http_body) list"
  exited :: "int option"

definition parse_error :: "js_error \<Rightarrow> response" where
  "parse_error err =
     \<lparr>jsonrpc = ''2.0'', resp_id = JNull, result = None,
      error = Some \<lparr>code = - 32700, message = ''Parse error'', data = JStr (message_of err)\<rparr>\<rparr>"

text \<open>The \<open>catch\<close> of the loop body: log, then write the parse error.\<close>

definition caught :: "string \<Rightarrow> js_error \<Rightarrow> world \<Rightarrow> world" where
  "caught line err w =
     w\<lparr>trace := trace w @ [LogError (take 100 line), StdoutWrite (Response (parse_error err))]\<rparr>"

text \<open>
  The loop body after \<open>await handleMcpRequest(...)\<close>: the response is logged and
  written; a rejected call lands in the \<open>catch\<close> of the loop.
\<close>

fun answer :: "string \<Rightarrow> js_error + response \<Rightarrow> world \<Rightarrow> world" where
  "answer line (Inl err) w = caught line err w"
| "answer line (Inr r) w =
     w\<lparr>trace := trace w @ [LogMcpOut r, StdoutWrite (Response r)]\<rparr>"

text \<open>
  The loop over the non-blank lines of a chunk:
  \<^verbatim>\<open>
  for (const line of lines) {
      if (line.trim()) {
          messageCount++;
          try {
              const request = JSON.parse(line);
              logger.logMcp('in', request.method || 'unknown', ...);
              const response = await handleMcpRequest(request, mcpTools, logger);
              logger.logMcp('out', ...);
              process.stdout.write(JSON.stringify(response) + '\n');
          } catch (error) { ... }
      }
  }
  \<close>
  The arguments of the first \<open>logMcp\<close> read \<open>request.method\<close>, which throws inside the
  \<open>try\<close> when the line parsed to \<open>null\<close>. A call that settles without waiting for a
  tool handler is answered before anything else happens in the process, and the loop
  goes on; at a call that waits for a handler the listener is suspended, with the rest
  of its lines neither counted nor parsed.
\<close>

fun run_lines :: "env \<Rightarrow> string list \<Rightarrow> world \<Rightarrow> world" where
  "run_lines e [] w = w"
| "run_lines e (line # rest) w =
     (case json_parse e line of
        Inl err \<Rightarrow>
          run_lines e rest (caught line err (w\<lparr>messageCount := messageCount w + 1\<rparr>))
      | Inr request \<Rightarrow>
     (case get_prop request ''method'' of
        Inl err \<Rightarrow>
          run_lines e rest (caught line err (w\<lparr>messageCount := messageCount w + 1\<rparr>))
      | Inr m \<Rightarrow>
     (case start_request e request (globalMCPTools e) of
        Rejected err \<Rightarrow>
          run_lines e rest
            (caught line err
               (w\<lparr>messageCount := messageCount w + 1,
                  trace := trace w @ [LogMcpIn request]\<rparr>))
      | Returned r \<Rightarrow>
          run_lines e rest
            (answer line (Inr r)
               (w\<lparr>messageCount := messageCount w + 1,
                  trace := trace w @ [LogMcpIn request]\<rparr>))
      | Suspended response toolName toolArgs settled \<Rightarrow>
          w\<lparr>messageCount := messageCount w + 1,
            trace := trace w @ [LogMcpIn request],
            pending := pending w @
              [StdioTask line response toolName toolArgs settled rest]\<rparr>)))"

text \<open>
  The \<open>data\<close> listener of stdin: the buffer is split and replaced, then the loop starts.
  Both happen before the listener can be suspended, so the lines a chunk hands to its
  loop and the buffer it leaves depend on the chunks alone.
\<close>

definition on_data :: "env \<Rightarrow> string \<Rightarrow> world \<Rightarrow> world" where
  "on_data e chunk w =
     (let (lines, b) = frame (buffer w) chunk
      in run_lines e lines (w\<lparr>buffer := b\<rparr>))"

text \<open>The \<open>end\<close> listener of stdin: \<open>process.exit(0)\<close>.\<close>

definition on_end :: "world \<Rightarrow> world" where
  "on_end w = w\<lparr>exited := Some 0\<rparr>"

definition init_message :: "string \<Rightarrow> stdout_line" where
  "init_message v =
     Notification ''server.initialized''
       (JObj [(''serverInfo'', JObj
          [(''name'', JStr ''ruv-swarm-hybrid''), (''version'', JStr v),
           (''capabilities'', JObj [(''tools'', JBool True), (''prompts'', JBool False),
                                    (''resources'', JBool True)])])])"

definition startStdioServer :: "env \<Rightarrow> world \<Rightarrow> world" where
  "startStdioServer e w =
     w\<lparr>stdin_listening := True,
       trace := trace w @ [StdoutWrite (init_message (version e))]\<rparr>"

definition startHttpServer :: "world \<Rightarrow> world" where
  "startHttpServer w = w\<lparr>httpServer := True\<rparr>"

text \<open>
  The \<open>end\<close> listener of a \<open>POST /api/tools/call\<close> body. A body that does not parse, or
  parses to \<open>null\<close> (which \<open>const { name, arguments: args } = ...\<close> cannot
  destructure), is answered with 400, and so is a rejected call; after the dispatcher
  has returned, \<open>tool:executed\<close> is emitted in every case and the reply is sent.
\<close>

definition bad_request :: "js_error \<Rightarrow> world \<Rightarrow> world" where
  "bad_request err w =
     w\<lparr>http_replies := http_replies w @ [(400, ErrorMessage (message_of err))]\<rparr>"

definition cannot_destructure :: js_error where
  "cannot_destructure =
     TypeError (''Cannot destructure property '' @ [CHR 0x27] @ ''name'' @ [CHR 0x27] @
                '' of '' @ [CHR 0x27] @ ''JSON.parse(...)'' @ [CHR 0x27] @ '' as it is null.'')"

fun http_reply :: "string \<Rightarrow> jsval \<Rightarrow> js_error + response \<Rightarrow> world \<Rightarrow> world" where
  "http_reply now name (Inl err) w = bad_request err w"
| "http_reply now name (Inr r) w =
     w\<lparr>sse := emit ''tool:executed''
               (JObj [(''tool'', name), (''timestamp'', JStr now),
                      (''success'', JBool (error r = None))]) (sse w),
       http_replies := http_replies w @
         [(200, case result r of
                  Some v \<Rightarrow> ResultBody v
                | None \<Rightarrow> ErrorBody (error r))]\<rparr>"

definition post_tools_call :: "env \<Rightarrow> string \<Rightarrow> string \<Rightarrow> world \<Rightarrow> world" where
  "post_tools_call e now body w =
     (case json_parse e body of
        Inl err \<Rightarrow> bad_request err w
      | Inr b \<Rightarrow>
     if b = JNull then bad_request cannot_destructure w else
     (case get_prop b ''name'' of
        Inl err \<Rightarrow> bad_request err w
      | Inr name \<Rightarrow>
     (case get_prop b ''arguments'' of
        Inl err \<Rightarrow> bad_request err w
      | Inr args \<Rightarrow>
     (case start_request e
             (JObj [(''method'', JStr ''tools/call''),
                    (''params'', JObj [(''name'', name), (''arguments'', args)])])
             (globalMCPTools e) of
        Rejected err \<Rightarrow> bad_request err w
      | Returned r \<Rightarrow> http_reply now name (Inr r) w
      | Suspended response toolName toolArgs settled \<Rightarrow>
          w\<lparr>pending := pending w @ [HttpTask response toolName toolArgs settled]\<rparr>))))"

text \<open>
  The handler awaited by the \<open>k\<close>-th suspended listener settles, at time \<open>now\<close>. The
  listener leaves the suspended ones and runs on: the call completes in the emitter
  state of this moment; the stdin listener answers and continues its loop over the
  lines it had not reached, and may be suspended anew; the HTTP listener replies.
\<close>

definition settle :: "env \<Rightarrow> string \<Rightarrow> nat \<Rightarrow> world \<Rightarrow> world" where
  "settle e now k w =
     (if k < length (pending w) then
        (let w' = w\<lparr>pending := take k (pending w) @ drop (Suc k) (pending w)\<rparr> in
         case pending w ! k of
           StdioTask line response toolName toolArgs settled rest \<Rightarrow>
             (case resume e now response toolName toolArgs settled (sse w) of
                (res, s') \<Rightarrow> run_lines e rest (answer line res (w'\<lparr>sse := s'\<rparr>)))
         | HttpTask response toolName toolArgs settled \<Rightarrow>
             (case resume e now response toolName toolArgs settled (sse w) of
                (res, s') \<Rightarrow> http_reply now toolName res (w'\<lparr>sse := s'\<rparr>)))
      else w)"

text \<open>
  What reaches the process from outside: a chunk on stdin, the end of stdin, a client
  opening or closing \<open>GET /events\<close>, the tick of a heartbeat timer, a posted call, the
  settling of an awaited tool handler, a termination signal.
\<close>

datatype input =
    StdinData string
  | StdinEnd
  | EventsOpen string string nat
  | EventsClose string nat
  | HeartbeatTick nat
  | PostToolsCall string string
  | ToolSettles string nat
  | Sigterm
  | Sigint

text \<open>
  One turn of the event loop. A process that has exited does nothing, and what it had
  suspended is never resumed; stdin events reach only the listeners
  \<open>startStdioServer\<close> registered, HTTP events only a listening server. A termination
  signal closes the server and exits with status 0.
\<close>

definition shutdown :: "world \<Rightarrow> world" where
  "shutdown w = w\<lparr>httpServer := False, exited := Some 0\<rparr>"

definition step :: "env \<Rightarrow> input \<Rightarrow> world \<Rightarrow> world" where
  "step e i w =
     (if exited w \<noteq> None then w
      else case i of
        StdinData chunk \<Rightarrow> if stdin_listening w then on_data e chunk w else w
      | StdinEnd \<Rightarrow> if stdin_listening w then on_end w else w
      | EventsOpen clientId now res \<Rightarrow>
          if httpServer w then w\<lparr>sse := sse_connect clientId now res (sse w)\<rparr> else w
      | EventsClose clientId res \<Rightarrow>
          if httpServer w then w\<lparr>sse := sse_close clientId res (sse w)\<rparr> else w
      | HeartbeatTick res \<Rightarrow> w\<lparr>sse := sse_heartbeat res (sse w)\<rparr>
      | PostToolsCall now body \<Rightarrow>
          if httpServer w then post_tools_call e now body w else w
      | ToolSettles now k \<Rightarrow> settle e now k w
      | Sigterm \<Rightarrow> shutdown w
      | Sigint \<Rightarrow> shutdown w)"

definition run :: "env \<Rightarrow> input list \<Rightarrow> world \<Rightarrow> world" where
  "run e inputs w = fold (step e) inputs w"

text \<open>Whether the transports still serve: the process has not exited.\<close>

definition http_serving :: "world \<Rightarrow> bool" where
  "http_serving w = (httpServer w \<and> exited w = None)"

datatype mode = Stdio | Http | Hybrid

definition boot :: world where
  "boot = \<lparr>stdin_listening = False, httpServer = False, keep_alive = False, buffer = [],
           messageCount = 0, pending = [], trace = [], sse = no_sse, http_replies = [],
           exited = None\<rparr>"

definition mode_of :: "string list \<Rightarrow> mode" where
  "mode_of args =
     (if ''--hybrid'' \<in> set args then Hybrid
      else if ''--http'' \<in> set args then Http
      else Stdio)"

text \<open>
  \<open>main\<close>, with the command line and the value of \<open>CLAUDE_FLOW_MODE\<close>: the transports of
  the mode are started, and the hourly no-op interval is set when the mode is http or
  hybrid or a flag asks for it. Both transports are taken to start without error, so
  the \<open>catch\<close> that exits with status 1 is not reached.
\<close>

definition main :: "env \<Rightarrow> string list \<Rightarrow> string option \<Rightarrow> world" where
  "main e args claude_flow_mode =
     (if ''--help'' \<in> set args \<or> ''-h'' \<in> set args then boot\<lparr>exited := Some 0\<rparr>
      else
        let mode = mode_of args;
            isDaemon = (''--daemon'' \<in> set args);
            keepAlive = (''--keep-alive'' \<in> set args \<or> claude_flow_mode = Some ''true'');
            w1 = (if mode = Stdio \<or> mode = Hybrid then startStdioServer e boot else boot);
            w2 = (if mode = Http \<or> mode = Hybrid then startHttpServer w1 else w1)
        in if keepAlive \<or> isDaemon \<or> mode = Http \<or> mode = Hybrid
           then w2\<lparr>keep_alive := True\<rparr> else w2)"

text \<open>
  Nothing keeps the event loop busy: no stdin listener, no listening server, no
  interval. A process in this state ends by itself.
\<close>

definition drained :: "world \<Rightarrow> bool" where
  "drained w =
     (\<not> stdin_listening w \<and> \<not> httpServer w \<and> \<not> keep_alive w \<and> heartbeats (sse w) = [])"

subsection \<open>Derived notions used in the statements\<close>

text \<open>
  One line run to its answer: the loop body on the line, and the handler it awaits, if
  it awaits one, settling at once. \<open>line_events\<close> is what this appends to the trace.
\<close>

definition process_line :: "env \<Rightarrow> string \<Rightarrow> string \<Rightarrow> world \<Rightarrow> world" where
  "process_line e now line w = settle e now (length (pending w)) (run_lines e [line] w)"

definition line_events :: "env \<Rightarrow> string \<Rightarrow> trace_event list" where
  "line_events e line = trace (process_line e [] line boot)"

text \<open>
  A schedule on which nothing overtakes the loop of a chunk: after each chunk the
  oldest suspended listener is resumed as often as the chunk has characters, which is
  at least as often as it has lines (resuming when nothing is suspended does nothing).
\<close>

definition quiet_inputs :: "string \<Rightarrow> string list \<Rightarrow> input list" where
  "quiet_inputs now chunks =
     concat (map (\<lambda>c. StdinData c # replicate (length c) (ToolSettles now 0)) chunks)"


text \<open>The requests read and the responses written, in the order of the trace.\<close>

fun requests_read :: "trace_event list \<Rightarrow> jsval list" where
  "requests_read [] = []"
| "requests_read (LogMcpIn request # tr) = request # requests_read tr"
| "requests_read (ev # tr) = requests_read tr"

fun responses_written :: "trace_event list \<Rightarrow> response list" where
  "responses_written [] = []"
| "responses_written (StdoutWrite (Response r) # tr) = r # responses_written tr"
| "responses_written (ev # tr) = responses_written tr"





text \<open>
  An emitter that no listener hears under \<open>tool:executed\<close>, and no stream of which has
  carried a frame of that event.
\<close>

fun is_tool_executed :: "sse_frame \<Rightarrow> bool" where
  "is_tool_executed (Event t d) = (t = ''tool:executed'')"
| "is_tool_executed (Comment c) = False"

definition deaf_to_tool_executed :: "sse_state \<Rightarrow> bool" where
  "deaf_to_tool_executed s =
     (''tool:executed'' \<notin> fst ` set (listeners s) \<and>
      filter is_tool_executed (map snd (wire s)) = [])"

subsection \<open>A concrete environment\<close>

text \<open>
  Two small registries, and \<open>JSON.parse\<close> and \<open>JSON.stringify\<close> given as tables that
  agree with the built-ins on the texts and values the examples use; every other text
  is treated as one that does not parse. \<open>agent_metrics\<close> is a tool whose promise is
  rejected without a reason.
\<close>

definition sample_status :: jsval where
  "sample_status = JObj [(''active'', JBool True)]"

definition sample_primary :: registry where
  "sample_primary name =
     (if name = ''swarm_status'' then Some (Fn (\<lambda>args. Returns sample_status))
      else if name = ''task_results'' then Some (Fn (\<lambda>args. Returns JNull))
      else if name = ''neural_train''
        then Some (Fn (\<lambda>args. Throws (Fault (Error ''training failed''))))
      else if name = ''agent_metrics'' then Some (Fn (\<lambda>args. Throws (Thrown JUndefined)))
      else if name = ''benchmark_run'' then Some (Fn (\<lambda>args. Returns (JStr ''primary'')))
      else if name = ''daa_init'' then Some (Fn (\<lambda>args. Returns (JStr ''own daa_init'')))
      else if name = ''version'' then Some (Val (JStr ''1.0.0''))
      else None)"

definition sample_secondary :: registry where
  "sample_secondary name =
     (if name = ''benchmark_run'' then Some (Fn (\<lambda>args. Returns (JStr ''secondary'')))
      else if name = ''daa_init'' then Some (Fn (\<lambda>args. Returns (JStr ''daa ready'')))
      else if name = ''daa_agent_create'' then Some (Fn (\<lambda>args. Returns (JStr ''created'')))
      else None)"

definition call_json :: "string \<Rightarrow> string \<Rightarrow> jsval" where
  "call_json i name =
     JObj [(''id'', JNum i), (''method'', JStr ''tools/call''),
           (''params'', JObj [(''name'', JStr name), (''arguments'', JObj [])])]"

definition initialize_json :: jsval where
  "initialize_json =
     JObj [(''jsonrpc'', JStr ''2.0''), (''id'', JNum ''1''), (''method'', JStr ''initialize'')]"

definition unknown_method_json :: jsval where
  "unknown_method_json = JObj [(''id'', JNum ''7''), (''method'', JStr ''resources/list'')]"

definition line_initialize :: string where
  \<open>line_initialize = ''{"jsonrpc":"2.0","id":1,"method":"initialize"}''\<close>

definition line_unknown_tool :: string where
  \<open>line_unknown_tool =
     ''{"id":2,"method":"tools/call","params":{"name":"nonexistent_tool","arguments":{}}}''\<close>

definition line_status :: string where
  \<open>line_status =
     ''{"id":3,"method":"tools/call","params":{"name":"swarm_status","arguments":{}}}''\<close>

definition line_failing :: string where
  \<open>line_failing =
     ''{"id":4,"method":"tools/call","params":{"name":"neural_train","arguments":{}}}''\<close>

definition line_null_result :: string where
  \<open>line_null_result =
     ''{"id":5,"method":"tools/call","params":{"name":"task_results","arguments":{}}}''\<close>

definition line_unknown_method :: string where
  \<open>line_unknown_method = ''{"id":7,"method":"resources/list"}''\<close>

definition line_rejecting :: string where
  \<open>line_rejecting =
     ''{"id":9,"method":"tools/call","params":{"name":"agent_metrics","arguments":{}}}''\<close>

definition body_status :: string where
  \<open>body_status = ''{"name":"swarm_status","arguments":{}}''\<close>

definition sample_parse :: "string \<Rightarrow> js_error + jsval" where
  "sample_parse s =
     (if s = line_initialize then Inr initialize_json
      else if s = line_unknown_tool then Inr (call_json ''2'' ''nonexistent_tool'')
      else if s = line_status then Inr (call_json ''3'' ''swarm_status'')
      else if s = line_failing then Inr (call_json ''4'' ''neural_train'')
      else if s = line_null_result then Inr (call_json ''5'' ''task_results'')
      else if s = line_unknown_method then Inr unknown_method_json
      else if s = line_rejecting then Inr (call_json ''9'' ''agent_metrics'')
      else if s = body_status then
        Inr (JObj [(''name'', JStr ''swarm_status''), (''arguments'', JObj [])])
      else if s = ''null'' then Inr JNull
      else Inl (SyntaxError ''Unexpected token''))"

definition status_text :: string where
  \<open>status_text = ''{'' @ [newline] @ ''  "active": true'' @ [newline] @ ''}''\<close>

definition sample_stringify :: "jsval \<Rightarrow> thrown + jsval" where
  "sample_stringify v =
     (if v = sample_status then Inr (JStr status_text)
      else if v = JUndefined then Inr JUndefined
      else Inl (Fault (TypeError ''Converting circular structure to JSON'')))"

definition sample_env :: env where
  "sample_env =
     \<lparr>json_parse = sample_parse, json_stringify = sample_stringify, version = ''1.0.18'',
      globalMCPTools = Some (initializeSystem sample_primary sample_secondary),
      daaMcpTools = sample_secondary\<rparr>"

definition sample_timestamp :: string where
  "sample_timestamp = ''2025-07-01T12:00:00.000Z''"

definition status_response :: response where
  "status_response =
     \<lparr>jsonrpc = ''2.0'', resp_id = JNum ''3'',
      result = Some (JObj [(''content'',
        JArr [JObj [(''type'', JStr ''text''), (''text'', JStr status_text)]])]),
      error = None\<rparr>"

section \<open>Framing\<close>

lemma split_nl_not_Nil: "split_nl s \<noteq> []"
  by (induction s) (auto split: list.splits)

lemma split_nl_Cons:
  "split_nl (c # cs) =
     (if c = newline then [] # split_nl cs else (c # hd (split_nl cs)) # tl (split_nl cs))"
  using split_nl_not_Nil [of cs] by (cases "split_nl cs") auto

lemma split_nl_no_newline:
  "newline \<notin> set b \<Longrightarrow> split_nl (b @ s) = (b @ hd (split_nl s)) # tl (split_nl s)"
proof (induction b)
  case Nil
  then show ?case using split_nl_not_Nil [of s] by (cases "split_nl s") auto
next
  case (Cons c b)
  then show ?case by (auto split: list.splits)
qed

lemma last_split_nl_no_newline: "newline \<notin> set (last (split_nl s))"
  by (induction s) (auto split: list.splits simp: split_nl_not_Nil)

text \<open>The scan of the specification and \<open>split\<close> agree on any text.\<close>

lemma split_nl_scan:
  "newline \<notin> set cur \<Longrightarrow>
   scan_lines cur s = (butlast (split_nl (cur @ s)), last (split_nl (cur @ s)))"
proof (induction s arbitrary: cur)
  case Nil
  then show ?case using split_nl_no_newline [of cur "[]"] by simp
next
  case (Cons c cs)
  show ?case
  proof (cases "c = newline")
    case True
    have "split_nl (cur @ c # cs) = (cur @ hd (split_nl (c # cs))) # tl (split_nl (c # cs))"
      using Cons.prems by (rule split_nl_no_newline)
    then have s: "split_nl (cur @ c # cs) = cur # split_nl cs"
      using True by simp
    have "scan_lines [] cs = (butlast (split_nl cs), last (split_nl cs))"
      using Cons.IH [of "[]"] by simp
    then show ?thesis using True s split_nl_not_Nil [of cs] by simp
  next
    case False
    then have "newline \<notin> set (cur @ [c])" using Cons.prems by auto
    from Cons.IH [OF this] False show ?thesis by simp
  qed
qed

text \<open>
  Splitting a text continued by \<open>t\<close>: the complete pieces of the first part stay as they
  are, and only its last piece is continued.
\<close>

lemma split_nl_append:
  "split_nl (s @ t) = butlast (split_nl s) @ split_nl (last (split_nl s) @ t)"
proof (induction s)
  case Nil
  show ?case by simp
next
  case (Cons c s)
  show ?case
  proof (cases "c = newline")
    case True
    then show ?thesis using Cons.IH split_nl_not_Nil [of s] by simp
  next
    case False
    obtain x xs where sx: "split_nl s = x # xs"
      using split_nl_not_Nil [of s] by (cases "split_nl s") auto
    show ?thesis
    proof (cases xs)
      case Nil
      have "split_nl (c # s @ t) = (c # hd (split_nl (s @ t))) # tl (split_nl (s @ t))"
        using False by (simp only: split_nl_Cons if_False)
      also have "split_nl (s @ t) = split_nl (x @ t)"
        using Cons.IH sx Nil by simp
      finally have l: "split_nl ((c # s) @ t) = (c # hd (split_nl (x @ t))) # tl (split_nl (x @ t))"
        by simp
      have "split_nl (c # s) = [c # x]"
        using False sx Nil by simp
      then have "butlast (split_nl (c # s)) @ split_nl (last (split_nl (c # s)) @ t)
                 = split_nl (c # (x @ t))"
        by simp
      also have "\<dots> = (c # hd (split_nl (x @ t))) # tl (split_nl (x @ t))"
        using False by (simp only: split_nl_Cons if_False)
      finally show ?thesis using l by simp
    next
      case (Cons y ys)
      have "split_nl (c # s @ t) = (c # hd (split_nl (s @ t))) # tl (split_nl (s @ t))"
        using False by (simp only: split_nl_Cons if_False)
      moreover have "split_nl (s @ t) = x # butlast (y # ys) @ split_nl (last (y # ys) @ t)"
        using Cons.IH sx Cons by simp
      moreover have "split_nl (c # s) = (c # x) # y # ys"
        using False sx Cons by simp
      ultimately show ?thesis by simp
    qed
  qed
qed

lemma butlast_split_nl_append:
  "butlast (split_nl (s @ t)) = butlast (split_nl s) @ butlast (split_nl (last (split_nl s) @ t))"
  using split_nl_append [of s t] split_nl_not_Nil [of "last (split_nl s) @ t"]
  by (simp add: butlast_append)

lemma last_split_nl_append:
  "last (split_nl (s @ t)) = last (split_nl (last (split_nl s) @ t))"
  using split_nl_append [of s t] split_nl_not_Nil [of "last (split_nl s) @ t"]
  by simp

lemma frames_split:
  "newline \<notin> set b \<Longrightarrow>
   frames b chunks =
     (filter non_blank (butlast (split_nl (b @ concat chunks))),
      last (split_nl (b @ concat chunks)))"
proof (induction chunks arbitrary: b)
  case Nil
  then show ?case using split_nl_no_newline [of b "[]"] by simp
next
  case (Cons c cs)
  let ?b = "last (split_nl (b @ c))"
  have "newline \<notin> set ?b" by (rule last_split_nl_no_newline)
  from Cons.IH [OF this] show ?case
    using butlast_split_nl_append [of "b @ c" "concat cs"]
      last_split_nl_append [of "b @ c" "concat cs"]
    by (simp add: frame_def Let_def)
qed

lemma frames_spec:
  "frames [] chunks =
     (filter non_blank (complete_lines (concat chunks)), incomplete_fragment (concat chunks))"
  using frames_split [of "[]" chunks] split_nl_scan [of "[]" "concat chunks"]
  by (simp add: complete_lines_def incomplete_fragment_def)

section \<open>Definitions unfolded in the proofs and examples\<close>

lemmas dispatcher_defs =
  handleMcpRequest_def start_request_def dispatch_def tools_call_start_def
  tools_call_finish_def resume_def catch_fault_def method_not_found_def Let_def

lemmas sample_defs =
  initializeSystem_def daaToolNames_def sample_env_def sample_parse_def sample_stringify_def
  sample_primary_def sample_secondary_def sample_status_def call_json_def initialize_json_def
  unknown_method_json_def line_initialize_def line_unknown_tool_def line_status_def
  line_failing_def line_null_result_def line_unknown_method_def line_rejecting_def
  body_status_def status_text_def status_response_def

lemmas boot_defs =
  main_def mode_of_def boot_def startStdioServer_def startHttpServer_def no_sse_def
  init_message_def

lemmas run_defs =
  run_def step_def on_data_def frame_def on_end_def shutdown_def settle_def sse_connect_def
  sse_close_def sse_heartbeat_def post_tools_call_def bad_request_def dispatcher_defs
  resolve_def emit_def map_delete_def stream_of_def http_serving_def caught_def
  parse_error_def newline_def non_blank_def trim_def is_space_def quiet_inputs_def
  cannot_convert_def cannot_read_def

lemmas line_defs = line_events_def process_line_def

section \<open>What the steps leave unchanged\<close>

text \<open>
  The loop, a resumption and a posted call touch neither the buffer nor the exit status
  nor the listeners of stdin; only a chunk changes the buffer, and it changes it as the
  framer says, whatever is suspended at the time.
\<close>

lemma caught_fields:
  "buffer (caught line err w) = buffer w"
  "exited (caught line err w) = exited w"
  "stdin_listening (caught line err w) = stdin_listening w"
  "httpServer (caught line err w) = httpServer w"
  "keep_alive (caught line err w) = keep_alive w"
  "sse (caught line err w) = sse w"
  "http_replies (caught line err w) = http_replies w"
  "pending (caught line err w) = pending w"
  "messageCount (caught line err w) = messageCount w"
  by (simp_all add: caught_def)

lemma answer_fields:
  "buffer (answer line res w) = buffer w"
  "exited (answer line res w) = exited w"
  "stdin_listening (answer line res w) = stdin_listening w"
  "httpServer (answer line res w) = httpServer w"
  "keep_alive (answer line res w) = keep_alive w"
  "sse (answer line res w) = sse w"
  "http_replies (answer line res w) = http_replies w"
  "pending (answer line res w) = pending w"
  "messageCount (answer line res w) = messageCount w"
  by (cases res; simp add: caught_def)+

lemma run_lines_fields:
  "buffer (run_lines e ls w) = buffer w \<and>
   exited (run_lines e ls w) = exited w \<and>
   stdin_listening (run_lines e ls w) = stdin_listening w \<and>
   httpServer (run_lines e ls w) = httpServer w \<and>
   keep_alive (run_lines e ls w) = keep_alive w \<and>
   sse (run_lines e ls w) = sse w \<and>
   http_replies (run_lines e ls w) = http_replies w"
  by (induction ls arbitrary: w)
    (simp_all add: caught_fields answer_fields split: sum.split started.split)

lemma http_reply_fields:
  "buffer (http_reply now name res w) = buffer w"
  "exited (http_reply now name res w) = exited w"
  "stdin_listening (http_reply now name res w) = stdin_listening w"
  "httpServer (http_reply now name res w) = httpServer w"
  "keep_alive (http_reply now name res w) = keep_alive w"
  "pending (http_reply now name res w) = pending w"
  "messageCount (http_reply now name res w) = messageCount w"
  "trace (http_reply now name res w) = trace w"
  by (cases res; simp add: bad_request_def)+

lemma settle_fields:
  "buffer (settle e now k w) = buffer w \<and>
   exited (settle e now k w) = exited w \<and>
   stdin_listening (settle e now k w) = stdin_listening w \<and>
   httpServer (settle e now k w) = httpServer w \<and>
   keep_alive (settle e now k w) = keep_alive w"
  by (simp add: settle_def Let_def run_lines_fields answer_fields http_reply_fields
      split: task.split prod.split)

lemma post_tools_call_fields:
  "buffer (post_tools_call e now body w) = buffer w \<and>
   exited (post_tools_call e now body w) = exited w \<and>
   stdin_listening (post_tools_call e now body w) = stdin_listening w \<and>
   httpServer (post_tools_call e now body w) = httpServer w \<and>
   keep_alive (post_tools_call e now body w) = keep_alive w \<and>
   messageCount (post_tools_call e now body w) = messageCount w \<and>
   trace (post_tools_call e now body w) = trace w"
  by (simp add: post_tools_call_def bad_request_def http_reply_fields
      split: sum.split started.split)

lemma on_data_fields:
  "buffer (on_data e chunk w) = snd (frame (buffer w) chunk) \<and>
   exited (on_data e chunk w) = exited w \<and>
   stdin_listening (on_data e chunk w) = stdin_listening w \<and>
   httpServer (on_data e chunk w) = httpServer w \<and>
   keep_alive (on_data e chunk w) = keep_alive w \<and>
   sse (on_data e chunk w) = sse w"
  by (simp add: on_data_def run_lines_fields split: prod.split)

lemma step_listening: "stdin_listening (step e i w) = stdin_listening w"
  by (cases i)
    (simp_all add: step_def on_data_fields on_end_def shutdown_def settle_fields
      post_tools_call_fields)



lemma run_Cons: "run e (i # inputs) w = run e inputs (step e i w)"
  by (simp add: run_def)

lemma run_append: "run e (xs @ ys) w = run e ys (run e xs w)"
  by (simp add: run_def)


lemma frames_Cons_snd:
  "snd (frames b (c # cs)) = snd (frames (snd (frame b c)) cs)"
  by (simp split: prod.split)

lemma frames_Cons_fst:
  "fst (frames b (c # cs)) = fst (frame b c) @ fst (frames (snd (frame b c)) cs)"
  by (simp split: prod.split)




section \<open>Lines and answers on any schedule\<close>


lemma requests_read_append:
  "requests_read (tr @ tr') = requests_read tr @ requests_read tr'"
  by (induction tr rule: requests_read.induct) simp_all














section \<open>A schedule on which nothing overtakes a loop\<close>

text \<open>
  The response of a call depends neither on the clock nor on the emitter state in which
  its handler settles: these only decide what is published.
\<close>

lemma tools_call_finish_indep:
  "fst (tools_call_finish e now r tn ta out s) = fst (tools_call_finish e now' r tn ta out s')"
  by (simp add: tools_call_finish_def Let_def split: outcome.split sum.split)

lemma resume_indep:
  "fst (resume e now r tn ta out s) = fst (resume e now' r tn ta out s')"
proof -
  obtain a u where x: "tools_call_finish e now r tn ta out s = (a, u)"
    by (cases "tools_call_finish e now r tn ta out s")
  obtain a' u' where y: "tools_call_finish e now' r tn ta out s' = (a', u')"
    by (cases "tools_call_finish e now' r tn ta out s'")
  have "a = a'" using tools_call_finish_indep [of e now r tn ta out s now' s'] x y by simp
  then show ?thesis using x y by (simp add: resume_def split: sum.split)
qed

text \<open>The events one line appends when nothing else is suspended.\<close>

lemma settle_nothing: "pending w = [] \<Longrightarrow> settle e now k w = w"
  by (simp add: settle_def)

lemma settle_last:
  "settle e now (length ts) (w\<lparr>pending := ts @ [StdioTask line r0 tn ta out rest]\<rparr>) =
   (case resume e now r0 tn ta out (sse w) of
      (res, s') \<Rightarrow> run_lines e rest (answer line res (w\<lparr>pending := ts, sse := s'\<rparr>)))"
  by (simp add: settle_def Let_def nth_append split: prod.split)

lemma process_line_unfold:
  "process_line e now line w =
     (case json_parse e line of
        Inl err \<Rightarrow> caught line err (w\<lparr>messageCount := messageCount w + 1\<rparr>)
      | Inr request \<Rightarrow>
     (case get_prop request ''method'' of
        Inl err \<Rightarrow> caught line err (w\<lparr>messageCount := messageCount w + 1\<rparr>)
      | Inr m \<Rightarrow>
     (case start_request e request (globalMCPTools e) of
        Rejected err \<Rightarrow>
          caught line err
            (w\<lparr>messageCount := messageCount w + 1, trace := trace w @ [LogMcpIn request]\<rparr>)
      | Returned r \<Rightarrow>
          answer line (Inr r)
            (w\<lparr>messageCount := messageCount w + 1, trace := trace w @ [LogMcpIn request]\<rparr>)
      | Suspended r0 tn ta out \<Rightarrow>
          (case resume e now r0 tn ta out (sse w) of
             (res, s') \<Rightarrow>
               answer line res
                 (w\<lparr>messageCount := messageCount w + 1,
                    trace := trace w @ [LogMcpIn request], sse := s'\<rparr>)))))"
proof -
  have n: "settle e now (length (pending w)) w' = w'"
    if "pending w' = pending w" for w'
    using that by (simp add: settle_def)
  show ?thesis
  proof (cases "json_parse e line")
    case (Inl err)
    then show ?thesis by (simp add: process_line_def n caught_fields)
  next
    case (Inr request)
    show ?thesis
    proof (cases "get_prop request ''method''")
      case (Inl err)
      then show ?thesis using Inr by (simp add: process_line_def n caught_fields)
    next
      case m: (Inr m)
      show ?thesis
      proof (cases "start_request e request (globalMCPTools e)")
        case (Rejected err)
        then show ?thesis using Inr m by (simp add: process_line_def n caught_fields)
      next
        case (Returned r)
        then show ?thesis using Inr m by (simp add: process_line_def n)
      next
        case (Suspended r0 tn ta out)
        let ?w = "w\<lparr>messageCount := messageCount w + 1, trace := trace w @ [LogMcpIn request]\<rparr>"
        have "run_lines e [line] w =
              ?w\<lparr>pending := pending w @ [StdioTask line r0 tn ta out []]\<rparr>"
          using Inr m Suspended by simp
        then have "process_line e now line w =
            settle e now (length (pending w))
              (?w\<lparr>pending := pending w @ [StdioTask line r0 tn ta out []]\<rparr>)"
          by (simp add: process_line_def)
        also have "\<dots> = (case resume e now r0 tn ta out (sse ?w) of
            (res, s') \<Rightarrow> run_lines e [] (answer line res (?w\<lparr>pending := pending w, sse := s'\<rparr>)))"
          by (rule settle_last)
        finally show ?thesis
          using Inr m Suspended by (simp split: prod.split)
      qed
    qed
  qed
qed

lemma process_line_fields:
  "buffer (process_line e now line w) = buffer w \<and>
   exited (process_line e now line w) = exited w \<and>
   stdin_listening (process_line e now line w) = stdin_listening w \<and>
   httpServer (process_line e now line w) = httpServer w \<and>
   pending (process_line e now line w) = pending w \<and>
   messageCount (process_line e now line w) = messageCount w + 1"
  by (simp add: process_line_unfold caught_fields answer_fields
      split: sum.split started.split prod.split)

lemma answer_trace: "trace (answer line res w) = trace w @ trace (answer line res boot)"
  by (cases res) (simp_all add: caught_def boot_def)

lemma process_line_trace:
  "trace (process_line e now line w) = trace w @ line_events e line"
proof -
  have r: "fst (resume e now r0 tn ta out (sse w)) = fst (resume e [] r0 tn ta out (sse boot))"
    for r0 tn ta out
    by (rule resume_indep)
  have a: "trace (answer line res (w\<lparr>messageCount := n, trace := tr, sse := s'\<rparr>)) =
           tr @ trace (answer line res boot)" for res n tr s'
    by (cases res) (simp_all add: caught_def boot_def)
  have a': "trace (answer line res (w\<lparr>messageCount := n, trace := tr\<rparr>)) =
           tr @ trace (answer line res boot)" for res n tr
    by (cases res) (simp_all add: caught_def boot_def)
  show ?thesis
  proof (cases "json_parse e line")
    case (Inl err)
    then show ?thesis by (simp add: line_events_def process_line_unfold caught_def boot_def)
  next
    case (Inr request)
    show ?thesis
    proof (cases "get_prop request ''method''")
      case (Inl err)
      then show ?thesis
        using Inr by (simp add: line_events_def process_line_unfold caught_def boot_def)
    next
      case m: (Inr m)
      show ?thesis
      proof (cases "start_request e request (globalMCPTools e)")
        case (Rejected err)
        then show ?thesis
          using Inr m by (simp add: line_events_def process_line_unfold caught_def boot_def)
      next
        case (Returned r)
        then show ?thesis
          using Inr m by (simp add: line_events_def process_line_unfold boot_def)
      next
        case (Suspended r0 tn ta out)
        obtain res s' where x: "resume e now r0 tn ta out (sse w) = (res, s')"
          by (cases "resume e now r0 tn ta out (sse w)")
        obtain res' s'' where y: "resume e [] r0 tn ta out (sse boot) = (res', s'')"
          by (cases "resume e [] r0 tn ta out (sse boot)")
        have "res = res'" using r [of r0 tn ta out] x y by simp
        then show ?thesis
          using Inr m Suspended x y
          by (simp add: line_events_def process_line_unfold a)
            (cases res'; simp add: caught_def boot_def)
      qed
    qed
  qed
qed

lemma run_lines_Cons_settle:
  assumes "pending w = []"
  shows "settle e now 0 (run_lines e (line # rest) w) = run_lines e rest (process_line e now line w)
       \<or> run_lines e (line # rest) w = run_lines e rest (process_line e now line w)"
proof (cases "json_parse e line")
  case (Inl err)
  then show ?thesis by (simp add: process_line_unfold)
next
  case (Inr request)
  show ?thesis
  proof (cases "get_prop request ''method''")
    case (Inl err)
    then show ?thesis using Inr by (simp add: process_line_unfold)
  next
    case m: (Inr m)
    show ?thesis
    proof (cases "start_request e request (globalMCPTools e)")
      case (Rejected err)
      then show ?thesis using Inr m by (simp add: process_line_unfold)
    next
      case (Returned r)
      then show ?thesis using Inr m by (simp add: process_line_unfold)
    next
      case (Suspended r0 tn ta out)
      let ?w = "w\<lparr>messageCount := messageCount w + 1, trace := trace w @ [LogMcpIn request]\<rparr>"
      have "run_lines e (line # rest) w =
            ?w\<lparr>pending := [] @ [StdioTask line r0 tn ta out rest]\<rparr>"
        using Inr m Suspended assms by simp
      then have "settle e now 0 (run_lines e (line # rest) w) =
          (case resume e now r0 tn ta out (sse ?w) of
            (res, s') \<Rightarrow> run_lines e rest (answer line res (?w\<lparr>pending := [], sse := s'\<rparr>)))"
        using settle_last [where ts = "[]" and w = ?w] by simp
      moreover have "?w\<lparr>pending := [], sse := s'\<rparr> = ?w\<lparr>sse := s'\<rparr>" for s'
        using assms by simp
      ultimately show ?thesis
        using Inr m Suspended by (simp add: process_line_unfold split: prod.split)
    qed
  qed
qed

lemma funpow_settle_nothing:
  "pending w = [] \<Longrightarrow> (settle e now 0 ^^ n) w = w"
  by (induction n) (simp_all add: settle_nothing)

lemma fold_process_line_pending:
  "pending (fold (process_line e now) ls w) = pending w"
  by (induction ls arbitrary: w) (simp_all add: process_line_fields)

lemma quiet_lines:
  "pending w = [] \<Longrightarrow> length ls \<le> n \<Longrightarrow>
   (settle e now 0 ^^ n) (run_lines e ls w) = fold (process_line e now) ls w"
proof (induction ls arbitrary: w n)
  case Nil
  then show ?case by (simp add: funpow_settle_nothing)
next
  case (Cons line rest)
  let ?w = "process_line e now line w"
  have p: "pending ?w = []" using Cons.prems(1) by (simp add: process_line_fields)
  obtain m where n: "n = Suc m" and m: "length rest \<le> m"
    using Cons.prems(2) by (cases n) auto
  from run_lines_Cons_settle [OF Cons.prems(1), of e now line rest]
  show ?case
  proof
    assume "settle e now 0 (run_lines e (line # rest) w) = run_lines e rest ?w"
    then have "(settle e now 0 ^^ n) (run_lines e (line # rest) w) =
               (settle e now 0 ^^ m) (run_lines e rest ?w)"
      using n by (simp add: funpow_swap1)
    then show ?thesis using Cons.IH [OF p m] by simp
  next
    assume "run_lines e (line # rest) w = run_lines e rest ?w"
    then show ?thesis using Cons.IH [OF p, of n] m n by simp
  qed
qed

lemma fold_process_line:
  "buffer (fold (process_line e now) ls w) = buffer w \<and>
   exited (fold (process_line e now) ls w) = exited w \<and>
   stdin_listening (fold (process_line e now) ls w) = stdin_listening w \<and>
   httpServer (fold (process_line e now) ls w) = httpServer w \<and>
   pending (fold (process_line e now) ls w) = pending w \<and>
   messageCount (fold (process_line e now) ls w) = messageCount w + length ls \<and>
   trace (fold (process_line e now) ls w) = trace w @ concat (map (line_events e) ls)"
  by (induction ls arbitrary: w) (simp_all add: process_line_fields process_line_trace)

lemma run_settles:
  "exited w = None \<Longrightarrow>
   run e (replicate n (ToolSettles now 0)) w = (settle e now 0 ^^ n) w"
proof (induction n arbitrary: w)
  case 0
  show ?case by (simp add: run_def)
next
  case (Suc n)
  have "step e (ToolSettles now 0) w = settle e now 0 w"
    using Suc.prems by (simp add: step_def)
  moreover have "exited (settle e now 0 w) = None"
    using Suc.prems by (simp add: settle_fields)
  ultimately show ?case using Suc.IH [of "settle e now 0 w"] by (simp add: run_Cons funpow_swap1)
qed

lemma length_split_nl: "length (split_nl s) \<le> Suc (length s)"
  by (induction s) (auto split: list.splits)

lemma frame_lines_bound:
  "newline \<notin> set b \<Longrightarrow> length (fst (frame b c)) \<le> length c"
proof -
  assume "newline \<notin> set b"
  then have "length (split_nl (b @ c)) = length (split_nl c)"
    using split_nl_no_newline [of b c] split_nl_not_Nil [of c]
    by (cases "split_nl c") simp_all
  then have "length (butlast (split_nl (b @ c))) \<le> length c"
    using length_split_nl [of c] by simp
  moreover have "length (filter non_blank (butlast (split_nl (b @ c)))) \<le>
                 length (butlast (split_nl (b @ c)))"
    by (rule length_filter_le)
  ultimately show ?thesis by (simp add: frame_def Let_def)
qed

lemma frame_buffer_no_newline: "newline \<notin> set (snd (frame b c))"
  by (simp add: frame_def Let_def last_split_nl_no_newline)

text \<open>A chunk and then its resumptions: every line of the chunk run to its answer.\<close>

lemma quiet_chunk:
  assumes "stdin_listening w" and "exited w = None" and "pending w = []"
    and "newline \<notin> set (buffer w)"
  shows "run e (StdinData c # replicate (length c) (ToolSettles now 0)) w =
         fold (process_line e now) (fst (frame (buffer w) c)) (w\<lparr>buffer := snd (frame (buffer w) c)\<rparr>)"
proof -
  obtain ls b where f: "frame (buffer w) c = (ls, b)" by (cases "frame (buffer w) c")
  have s: "step e (StdinData c) w = run_lines e ls (w\<lparr>buffer := b\<rparr>)"
    using assms(1,2) f by (simp add: step_def on_data_def)
  have ex: "exited (run_lines e ls (w\<lparr>buffer := b\<rparr>)) = None"
    using assms(2) by (simp add: run_lines_fields)
  have le: "length ls \<le> length c"
    using frame_lines_bound [OF assms(4), of c] f by simp
  have "run e (StdinData c # replicate (length c) (ToolSettles now 0)) w =
        (settle e now 0 ^^ length c) (run_lines e ls (w\<lparr>buffer := b\<rparr>))"
    using s run_settles [OF ex] by (simp add: run_Cons)
  also have "\<dots> = fold (process_line e now) ls (w\<lparr>buffer := b\<rparr>)"
    using quiet_lines [of "w\<lparr>buffer := b\<rparr>" ls "length c" e now] assms(3) le by simp
  finally show ?thesis using f by simp
qed

lemma quiet_run:
  assumes "stdin_listening w" and "exited w = None" and "pending w = []"
    and "newline \<notin> set (buffer w)"
  shows "buffer (run e (quiet_inputs now chunks) w) = snd (frames (buffer w) chunks) \<and>
         exited (run e (quiet_inputs now chunks) w) = None \<and>
         stdin_listening (run e (quiet_inputs now chunks) w) \<and>
         pending (run e (quiet_inputs now chunks) w) = [] \<and>
         messageCount (run e (quiet_inputs now chunks) w) =
           messageCount w + length (fst (frames (buffer w) chunks)) \<and>
         trace (run e (quiet_inputs now chunks) w) =
           trace w @ concat (map (line_events e) (fst (frames (buffer w) chunks)))"
  using assms
proof (induction chunks arbitrary: w)
  case Nil
  then show ?case by (simp add: quiet_inputs_def run_def)
next
  case (Cons c cs)
  let ?ls = "fst (frame (buffer w) c)" and ?b = "snd (frame (buffer w) c)"
  let ?w = "fold (process_line e now) ?ls (w\<lparr>buffer := ?b\<rparr>)"
  have q: "run e (quiet_inputs now (c # cs)) w = run e (quiet_inputs now cs) ?w"
    using quiet_chunk [OF Cons.prems, of e c now]
    by (simp add: quiet_inputs_def run_append del: replicate.simps)
       (simp add: run_def)
  have f: "buffer ?w = ?b" "exited ?w = None" "stdin_listening ?w" "pending ?w = []"
    "messageCount ?w = messageCount w + length ?ls"
    "trace ?w = trace w @ concat (map (line_events e) ?ls)"
    using fold_process_line [of e now ?ls "w\<lparr>buffer := ?b\<rparr>"] Cons.prems by simp_all
  have n: "newline \<notin> set (buffer ?w)" using f(1) frame_buffer_no_newline [of "buffer w" c] by simp
  show ?case
    using Cons.IH [OF f(3) f(2) f(4) n] q f
    by (simp add: frames_Cons_fst frames_Cons_snd del: frames.simps)
qed

section \<open>The dispatcher and the events of a line\<close>

lemma get_prop_other: "get_prop v k = Inr x \<Longrightarrow> \<exists>y. get_prop v k' = Inr y"
  by (cases v) (auto split: option.splits)

lemma resolve_primary: "p k = Some (Fn f) \<Longrightarrow> resolve (Some p) d k = Primary f"
  by (simp add: resolve_def)







lemma line_events_parse_failure:
  "json_parse e line = Inl err \<Longrightarrow>
   line_events e line = [LogError (take 100 line), StdoutWrite (Response (parse_error err))]"
  by (simp add: line_events_def process_line_unfold caught_def boot_def)

lemma step_exit_unchanged:
  "exited (step e (StdinData chunk) w) = exited w"
  "exited (step e (ToolSettles now k) w) = exited w"
  "exited (step e (PostToolsCall now body) w) = exited w"
  by (simp_all add: step_def on_data_fields settle_fields post_tools_call_fields)

section \<open>The claims\<close>







text \<open>
  Claim C7, as the code has it. A line that \<open>JSON.parse\<close> rejects is answered, as soon as the
  loop reaches it, with the error record and one response with code \<open>-32700\<close>, message
  \<open>Parse error\<close> and id \<open>null\<close>, and the loop goes on with the lines after it. On a
  schedule on which each loop finishes before the next chunk, the trace is the
  concatenation of the events of the non-blank lines of the stream, each the same as if
  the line had come alone. A chunk never changes the exit status or the listeners.
\<close>

theorem parse_error_isolated:
  assumes "stdin_listening w" and "exited w = None" and "buffer w = []" and "pending w = []"
    and "json_parse e line = Inl err"
  shows "line_events e line =
           [LogError (take 100 line),
            StdoutWrite (Response
              \<lparr>jsonrpc = ''2.0'', resp_id = JNull, result = None,
               error = Some \<lparr>code = - 32700, message = ''Parse error'',
                             data = JStr (message_of err)\<rparr>\<rparr>)] \<and>
         trace (run e (quiet_inputs now chunks) w) =
           trace w @ concat (map (line_events e)
             (filter non_blank (complete_lines (concat chunks)))) \<and>
         exited (run e (quiet_inputs now chunks) w) = None \<and>
         stdin_listening (run e (quiet_inputs now chunks) w) \<and>
         run_lines e (line # rest) w' =
           run_lines e rest (caught line err (w'\<lparr>messageCount := messageCount w' + 1\<rparr>)) \<and>
         exited (step e (StdinData chunk) w') = exited w' \<and>
         stdin_listening (step e (StdinData chunk) w') = stdin_listening w'"
proof -
  have n: "newline \<notin> set (buffer w)" using assms(3) by simp
  show ?thesis
    using line_events_parse_failure [OF assms(5)]
      quiet_run [OF assms(1) assms(2) assms(4) n, of e now chunks]
      frames_spec [of chunks] assms(3) assms(5)
    by (simp add: parse_error_def step_exit_unchanged step_listening)
qed

text \<open>
  A line that does not parse is not answered when it waits behind a \<open>tools/call\<close>
  whose handler has not settled at the time stdin ends.
\<close>

theorem parse_error_isolated_counterexample:
  "filter non_blank (complete_lines (line_status @ [newline] @ ''not json'' @ [newline])) =
     [line_status, ''not json''] \<and>
   json_parse sample_env ''not json'' = Inl (SyntaxError ''Unexpected token'') \<and>
   responses_written (trace (run sample_env
     [StdinData (line_status @ [newline] @ ''not json'' @ [newline]), StdinEnd,
      ToolSettles sample_timestamp 0]
     (main sample_env [''--stdio''] None))) = [] \<and>
   messageCount (run sample_env
     [StdinData (line_status @ [newline] @ ''not json'' @ [newline]), StdinEnd,
      ToolSettles sample_timestamp 0]
     (main sample_env [''--stdio''] None)) = 1 \<and>
   exited (run sample_env
     [StdinData (line_status @ [newline] @ ''not json'' @ [newline]), StdinEnd,
      ToolSettles sample_timestamp 0]
     (main sample_env [''--stdio''] None)) = Some 0"
  by (simp add: run_defs boot_defs sample_defs complete_lines_def)

theorem parse_error_isolated_witness:
  "stdin_listening (main sample_env [''--stdio''] None) \<and>
   exited (main sample_env [''--stdio''] None) = None \<and>
   buffer (main sample_env [''--stdio''] None) = [] \<and>
   pending (main sample_env [''--stdio''] None) = [] \<and>
   json_parse sample_env ''not json'' = Inl (SyntaxError ''Unexpected token'') \<and>
   trace (run sample_env
     (quiet_inputs sample_timestamp
        [line_initialize @ [newline] @ ''not js'',
         ''on'' @ [newline] @ line_unknown_method @ [newline]])
     (main sample_env [''--stdio''] None)) =
     trace (main sample_env [''--stdio''] None) @
     line_events sample_env line_initialize @
     [LogError ''not json'',
      StdoutWrite (Response
        \<lparr>jsonrpc = ''2.0'', resp_id = JNull, result = None,
         error = Some \<lparr>code = - 32700, message = ''Parse error'',
                       data = JStr ''Unexpected token''\<rparr>\<rparr>)] @
     line_events sample_env line_unknown_method \<and>
   map resp_id (responses_written (line_events sample_env line_initialize)) = [JNum ''1''] \<and>
   map resp_id (responses_written (line_events sample_env line_unknown_method)) = [JNum ''7''] \<and>
   exited (run sample_env
     (quiet_inputs sample_timestamp
        [line_initialize @ [newline] @ ''not js'',
         ''on'' @ [newline] @ line_unknown_method @ [newline]])
     (main sample_env [''--stdio''] None)) = None"
proof -
  let ?w = "main sample_env [''--stdio''] None"
  let ?chunks = "[line_initialize @ [newline] @ ''not js'',
         ''on'' @ [newline] @ line_unknown_method @ [newline]]"
  have h1: "stdin_listening ?w" and h2: "exited ?w = None" and h3: "buffer ?w = []"
    and h4: "pending ?w = []"
    by (simp_all add: boot_defs)
  have h5: "json_parse sample_env ''not json'' = Inl (SyntaxError ''Unexpected token'')"
    by (simp add: sample_defs)
  have c: "filter non_blank (complete_lines (concat ?chunks)) =
      [line_initialize, ''not json'', line_unknown_method]"
    by (simp add: complete_lines_def newline_def non_blank_def trim_def is_space_def
        line_initialize_def line_unknown_method_def)
  have l1: "map resp_id (responses_written (line_events sample_env line_initialize)) =
      [JNum ''1'']"
    by (simp add: line_defs run_defs boot_defs sample_defs)
  have l2: "map resp_id (responses_written (line_events sample_env line_unknown_method)) =
      [JNum ''7'']"
    by (simp add: line_defs run_defs boot_defs sample_defs)
  show ?thesis
    using parse_error_isolated [OF h1 h2 h3 h4 h5, where now = sample_timestamp
        and chunks = ?chunks]
      h1 h2 h3 h4 h5 c l1 l2
    by simp
qed

text \<open>
  Claim C6. When the primary registry exposes a function under the tool name, the lookup
  selects it, and the dispatcher answers as a gateway whose only tool is that function:
  the secondary registry has no part in the call. The lookup selects a function of the
  secondary registry only when the primary registry exposes no function of that name.
\<close>

theorem registry_precedence:
  "(to_str toolName = Inr k \<and> p k = Some (Fn f) \<longrightarrow>
      resolve (Some p) (daaMcpTools e) k = Primary f \<and>
      (get_prop request ''params'' = Inr params \<longrightarrow>
       get_prop params ''name'' = Inr toolName \<longrightarrow>
         handleMcpRequest e now request (Some p) s =
         handleMcpRequest (e\<lparr>daaMcpTools := Map.empty\<rparr>) now request
           (Some [k \<mapsto> Fn f]) s)) \<and>
   (resolve m d k' = Secondary g \<longrightarrow>
      d k' = Some (Fn g) \<and> (\<forall>q h. m = Some q \<longrightarrow> q k' \<noteq> Some (Fn h)))"
proof -
  have a: "resolve (Some p) (daaMcpTools e) k = Primary f" if "p k = Some (Fn f)"
    using that by (rule resolve_primary)
  have b: "handleMcpRequest e now request (Some p) s =
         handleMcpRequest (e\<lparr>daaMcpTools := Map.empty\<rparr>) now request
           (Some [k \<mapsto> Fn f]) s"
    if tk: "to_str toolName = Inr k" and pf: "p k = Some (Fn f)"
      and pp: "get_prop request ''params'' = Inr params"
      and pn: "get_prop params ''name'' = Inr toolName"
  proof -
    let ?e = "e\<lparr>daaMcpTools := Map.empty\<rparr>" and ?p = "[k \<mapsto> Fn f]"
    have r: "resolve (Some ?p) Map.empty k = Primary f"
      by (simp add: resolve_def)
    obtain x where x: "get_prop params ''arguments'' = Inr x"
      using get_prop_other [OF pn] by blast
    have t: "tools_call_start e request (Some p) r0 = tools_call_start ?e request (Some ?p) r0"
      for r0
      using tk pp pn x a [OF pf] r by (simp add: tools_call_start_def)
    have d: "dispatch e request (Some p) r0 = dispatch ?e request (Some ?p) r0" for r0
      using t [of r0] by (simp add: dispatch_def split: sum.split)
    have st: "start_request e request (Some p) = start_request ?e request (Some ?p)"
      using d by (simp add: start_request_def split: sum.split)
    have f: "tools_call_finish ?e now r0 tn ta out s = tools_call_finish e now r0 tn ta out s"
      for r0 tn ta out
    proof (cases out)
      case (Throws t)
      then show ?thesis by (simp add: tools_call_finish_def)
    next
      case (Returns v)
      have "(case v of JStr t \<Rightarrow> Inr v | _ \<Rightarrow> json_stringify ?e v) =
            (case v of JStr t \<Rightarrow> Inr v | _ \<Rightarrow> json_stringify e v)"
        by (cases v) simp_all
      then show ?thesis using Returns by (simp add: tools_call_finish_def)
    qed
    have "resume ?e now r0 tn ta out s = resume e now r0 tn ta out s" for r0 tn ta out
      by (simp add: resume_def f)
    then show ?thesis
      using st by (simp add: handleMcpRequest_def split: started.split)
  qed
  have c: "d k' = Some (Fn g) \<and> (\<forall>q h. m = Some q \<longrightarrow> q k' \<noteq> Some (Fn h))"
    if "resolve m d k' = Secondary g"
    using that by (auto simp: resolve_def split: option.splits member.splits)
  show ?thesis using a b c by blast
qed

theorem registry_precedence_witness:
  "to_str (JStr ''benchmark_run'') = Inr ''benchmark_run'' \<and>
   sample_primary ''benchmark_run'' = Some (Fn (\<lambda>args. Returns (JStr ''primary''))) \<and>
   sample_secondary ''benchmark_run'' = Some (Fn (\<lambda>args. Returns (JStr ''secondary''))) \<and>
   resolve (Some sample_primary) (daaMcpTools sample_env) ''benchmark_run'' =
     Primary (\<lambda>args. Returns (JStr ''primary'')) \<and>
   resolve (Some sample_primary) sample_secondary ''daa_agent_create'' =
     Secondary (\<lambda>args. Returns (JStr ''created'')) \<and>
   sample_secondary ''daa_agent_create'' = Some (Fn (\<lambda>args. Returns (JStr ''created''))) \<and>
   sample_primary ''daa_agent_create'' = None \<and>
   handleMcpRequest sample_env sample_timestamp (call_json ''6'' ''benchmark_run'')
       (Some sample_primary) no_sse =
     (Inr \<lparr>jsonrpc = ''2.0'', resp_id = JNum ''6'',
           result = Some (JObj [(''content'',
             JArr [JObj [(''type'', JStr ''text''), (''text'', JStr ''primary'')]])]),
           error = None\<rparr>, no_sse)"
proof -
  let ?r = "call_json ''6'' ''benchmark_run''"
  let ?p = "JObj [(''name'', JStr ''benchmark_run''), (''arguments'', JObj [])]"
  let ?f = "\<lambda>args::jsval. Returns (JStr ''primary'')"
  have p1: "get_prop ?r ''params'' = Inr ?p"
    and p2: "get_prop ?p ''name'' = Inr (JStr ''benchmark_run'')"
    by (simp_all add: call_json_def)
  have k: "to_str (JStr ''benchmark_run'') = Inr ''benchmark_run''" by simp
  have ev: "handleMcpRequest (sample_env\<lparr>daaMcpTools := Map.empty\<rparr>) sample_timestamp ?r
       (Some [''benchmark_run'' \<mapsto> Fn ?f]) no_sse =
     (Inr \<lparr>jsonrpc = ''2.0'', resp_id = JNum ''6'',
           result = Some (JObj [(''content'',
             JArr [JObj [(''type'', JStr ''text''), (''text'', JStr ''primary'')]])]),
           error = None\<rparr>, no_sse)"
    by (simp add: dispatcher_defs resolve_def call_json_def no_sse_def)
  have h1: "sample_primary ''benchmark_run'' = Some (Fn ?f)"
    by (simp add: sample_primary_def)
  have h2: "resolve (Some sample_primary) sample_secondary ''daa_agent_create'' =
     Secondary (\<lambda>args. Returns (JStr ''created''))"
    by (simp add: resolve_def sample_primary_def sample_secondary_def)
  have h3: "sample_secondary ''benchmark_run'' = Some (Fn (\<lambda>args. Returns (JStr ''secondary'')))"
    and h4: "sample_primary ''daa_agent_create'' = None"
    by (simp_all add: sample_primary_def sample_secondary_def)
  show ?thesis
    using registry_precedence [where toolName = "JStr ''benchmark_run''"
        and k = "''benchmark_run''" and p = sample_primary and f = ?f and e = sample_env
        and request = ?r and params = ?p and now = sample_timestamp and s = no_sse
        and m = "Some sample_primary" and d = sample_secondary and k' = "''daa_agent_create''"
        and g = "\<lambda>args. Returns (JStr ''created'')"]
      k h1 h2 h3 h4 p1 p2 ev by simp
qed

text \<open>
  Claim C8, as the code has it. A \<open>tools/call\<close> whose tool name converts to a property key
  that no registry resolves, and a request whose method is none of \<open>initialize\<close>,
  \<open>tools/list\<close>, \<open>tools/call\<close> and converts to a string, are answered with code
  \<open>-32601\<close>, message \<open>Method not found\<close>, and the offending name in \<open>data\<close>. A method
  or tool name that cannot be converted throws inside the \<open>try\<close> and is answered with
  \<open>-32603\<close>.
\<close>

theorem method_not_found_errors:
  assumes "get_prop request ''id'' = Inr i" and "get_prop request ''method'' = Inr m"
  shows "(m = JStr ''tools/call'' \<longrightarrow>
          get_prop request ''params'' = Inr params \<longrightarrow>
          get_prop params ''name'' = Inr toolName \<longrightarrow>
          to_str toolName = Inr k \<longrightarrow>
          resolve mcpTools (daaMcpTools e) k = NotFound \<longrightarrow>
            handleMcpRequest e now request mcpTools s =
              (Inr \<lparr>jsonrpc = ''2.0'', resp_id = i, result = None,
                    error = Some \<lparr>code = - 32601, message = ''Method not found'',
                                  data = JStr (''Unknown tool: '' @ k)\<rparr>\<rparr>, s)) \<and>
         (m \<noteq> JStr ''initialize'' \<and> m \<noteq> JStr ''tools/list'' \<and> m \<noteq> JStr ''tools/call'' \<longrightarrow>
          to_str m = Inr name \<longrightarrow>
            handleMcpRequest e now request mcpTools s =
              (Inr \<lparr>jsonrpc = ''2.0'', resp_id = i, result = None,
                    error = Some \<lparr>code = - 32601, message = ''Method not found'',
                                  data = JStr (''Unknown method: '' @ name)\<rparr>\<rparr>, s)) \<and>
         (m \<noteq> JStr ''initialize'' \<and> m \<noteq> JStr ''tools/list'' \<and> m \<noteq> JStr ''tools/call'' \<longrightarrow>
          to_str m = Inl err \<longrightarrow>
            handleMcpRequest e now request mcpTools s =
              (Inr \<lparr>jsonrpc = ''2.0'', resp_id = i, result = None,
                    error = Some \<lparr>code = - 32603, message = ''Internal error'',
                                  data = JStr (message_of err)\<rparr>\<rparr>, s)) \<and>
         (m = JStr ''tools/call'' \<longrightarrow>
          get_prop request ''params'' = Inr params \<longrightarrow>
          get_prop params ''name'' = Inr toolName \<longrightarrow>
          to_str toolName = Inl err \<longrightarrow>
            handleMcpRequest e now request mcpTools s =
              (Inr \<lparr>jsonrpc = ''2.0'', resp_id = i, result = None,
                    error = Some \<lparr>code = - 32603, message = ''Internal error'',
                                  data = JStr (message_of err)\<rparr>\<rparr>, s))"
proof (intro conjI impI)
  assume "m = JStr ''tools/call''" and "get_prop request ''params'' = Inr params"
    and n: "get_prop params ''name'' = Inr toolName" and "to_str toolName = Inr k"
    and "resolve mcpTools (daaMcpTools e) k = NotFound"
  moreover obtain a where "get_prop params ''arguments'' = Inr a"
    using get_prop_other [OF n] by blast
  ultimately show "handleMcpRequest e now request mcpTools s =
              (Inr \<lparr>jsonrpc = ''2.0'', resp_id = i, result = None,
                    error = Some \<lparr>code = - 32601, message = ''Method not found'',
                                  data = JStr (''Unknown tool: '' @ k)\<rparr>\<rparr>, s)"
    using assms by (simp add: dispatcher_defs)
next
  assume "m \<noteq> JStr ''initialize'' \<and> m \<noteq> JStr ''tools/list'' \<and> m \<noteq> JStr ''tools/call''"
    and "to_str m = Inr name"
  then show "handleMcpRequest e now request mcpTools s =
              (Inr \<lparr>jsonrpc = ''2.0'', resp_id = i, result = None,
                    error = Some \<lparr>code = - 32601, message = ''Method not found'',
                                  data = JStr (''Unknown method: '' @ name)\<rparr>\<rparr>, s)"
    using assms by (simp add: dispatcher_defs)
next
  assume "m \<noteq> JStr ''initialize'' \<and> m \<noteq> JStr ''tools/list'' \<and> m \<noteq> JStr ''tools/call''"
    and "to_str m = Inl err"
  then show "handleMcpRequest e now request mcpTools s =
              (Inr \<lparr>jsonrpc = ''2.0'', resp_id = i, result = None,
                    error = Some \<lparr>code = - 32603, message = ''Internal error'',
                                  data = JStr (message_of err)\<rparr>\<rparr>, s)"
    using assms by (simp add: dispatcher_defs)
next
  assume "m = JStr ''tools/call''" and "get_prop request ''params'' = Inr params"
    and n: "get_prop params ''name'' = Inr toolName" and "to_str toolName = Inl err"
  moreover obtain a where "get_prop params ''arguments'' = Inr a"
    using get_prop_other [OF n] by blast
  ultimately show "handleMcpRequest e now request mcpTools s =
              (Inr \<lparr>jsonrpc = ''2.0'', resp_id = i, result = None,
                    error = Some \<lparr>code = - 32603, message = ''Internal error'',
                                  data = JStr (message_of err)\<rparr>\<rparr>, s)"
    using assms by (simp add: dispatcher_defs)
qed

text \<open>
  A method, or a tool name, that is an object with a member \<open>toString\<close> is answered
  with \<open>-32603\<close>, not \<open>-32601\<close>.
\<close>

theorem method_not_found_errors_counterexample:
  "JObj [(''toString'', JNum ''0'')] \<noteq> JStr ''initialize'' \<and>
   JObj [(''toString'', JNum ''0'')] \<noteq> JStr ''tools/list'' \<and>
   JObj [(''toString'', JNum ''0'')] \<noteq> JStr ''tools/call'' \<and>
   handleMcpRequest sample_env sample_timestamp
     (JObj [(''id'', JNum ''8''), (''method'', JObj [(''toString'', JNum ''0'')])])
     (globalMCPTools sample_env) no_sse =
     (Inr \<lparr>jsonrpc = ''2.0'', resp_id = JNum ''8'', result = None,
           error = Some \<lparr>code = - 32603, message = ''Internal error'',
                         data = JStr ''Cannot convert object to primitive value''\<rparr>\<rparr>,
      no_sse) \<and>
   handleMcpRequest sample_env sample_timestamp
     (JObj [(''id'', JNum ''8''), (''method'', JStr ''tools/call''),
            (''params'', JObj [(''name'', JObj [(''toString'', JNum ''0'')])])])
     (globalMCPTools sample_env) no_sse =
     (Inr \<lparr>jsonrpc = ''2.0'', resp_id = JNum ''8'', result = None,
           error = Some \<lparr>code = - 32603, message = ''Internal error'',
                         data = JStr ''Cannot convert object to primitive value''\<rparr>\<rparr>,
      no_sse)"
  by (simp add: run_defs sample_defs)

theorem method_not_found_errors_witness:
  "get_prop (call_json ''2'' ''nonexistent_tool'') ''id'' = Inr (JNum ''2'') \<and>
   get_prop (call_json ''2'' ''nonexistent_tool'') ''method'' = Inr (JStr ''tools/call'') \<and>
   to_str (JStr ''nonexistent_tool'') = Inr ''nonexistent_tool'' \<and>
   resolve (Some sample_primary) (daaMcpTools sample_env) ''nonexistent_tool'' = NotFound \<and>
   handleMcpRequest sample_env sample_timestamp (call_json ''2'' ''nonexistent_tool'')
       (Some sample_primary) no_sse =
     (Inr \<lparr>jsonrpc = ''2.0'', resp_id = JNum ''2'', result = None,
           error = Some \<lparr>code = - 32601, message = ''Method not found'',
                         data = JStr ''Unknown tool: nonexistent_tool''\<rparr>\<rparr>, no_sse) \<and>
   handleMcpRequest sample_env sample_timestamp unknown_method_json
       (Some sample_primary) no_sse =
     (Inr \<lparr>jsonrpc = ''2.0'', resp_id = JNum ''7'', result = None,
           error = Some \<lparr>code = - 32601, message = ''Method not found'',
                         data = JStr ''Unknown method: resources/list''\<rparr>\<rparr>, no_sse) \<and>
   to_str (JArr [JNum ''1'', JObj [(''toString'', JNull)]]) = Inl cannot_convert \<and>
   handleMcpRequest sample_env sample_timestamp
       (JObj [(''id'', JNum ''8''),
              (''method'', JArr [JNum ''1'', JObj [(''toString'', JNull)]])])
       (Some sample_primary) no_sse =
     (Inr \<lparr>jsonrpc = ''2.0'', resp_id = JNum ''8'', result = None,
           error = Some \<lparr>code = - 32603, message = ''Internal error'',
                         data = JStr (message_of cannot_convert)\<rparr>\<rparr>, no_sse)"
proof -
  let ?r = "call_json ''2'' ''nonexistent_tool''"
  let ?p = "JObj [(''name'', JStr ''nonexistent_tool''), (''arguments'', JObj [])]"
  let ?m = "JArr [JNum ''1'', JObj [(''toString'', JNull)]]"
  let ?b = "JObj [(''id'', JNum ''8''), (''method'', ?m)]"
  have h1: "get_prop ?r ''id'' = Inr (JNum ''2'')"
    and h2: "get_prop ?r ''method'' = Inr (JStr ''tools/call'')"
    and h3: "get_prop ?r ''params'' = Inr ?p"
    and h4: "get_prop ?p ''name'' = Inr (JStr ''nonexistent_tool'')"
    by (simp_all add: call_json_def)
  have k: "to_str (JStr ''nonexistent_tool'') = Inr ''nonexistent_tool''" by simp
  have h5: "resolve (Some sample_primary) (daaMcpTools sample_env) ''nonexistent_tool'' =
      NotFound"
    by (simp add: resolve_def sample_env_def sample_primary_def sample_secondary_def)
  have g1: "get_prop unknown_method_json ''id'' = Inr (JNum ''7'')"
    and g2: "get_prop unknown_method_json ''method'' = Inr (JStr ''resources/list'')"
    by (simp_all add: unknown_method_json_def)
  have g3: "to_str (JStr ''resources/list'') = Inr ''resources/list''" by simp
  have b1: "get_prop ?b ''id'' = Inr (JNum ''8'')" and b2: "get_prop ?b ''method'' = Inr ?m"
    by simp_all
  have b3: "to_str ?m = Inl cannot_convert" by simp
  have b4: "?m \<noteq> JStr ''initialize'' \<and> ?m \<noteq> JStr ''tools/list'' \<and> ?m \<noteq> JStr ''tools/call''"
    by simp
  show ?thesis
    using method_not_found_errors [OF h1 h2, where params = ?p
        and toolName = "JStr ''nonexistent_tool''" and k = "''nonexistent_tool''"
        and mcpTools = "Some sample_primary" and e = sample_env and now = sample_timestamp
        and s = no_sse]
      method_not_found_errors [OF g1 g2, where name = "''resources/list''"
        and mcpTools = "Some sample_primary" and e = sample_env and now = sample_timestamp
        and s = no_sse]
      method_not_found_errors [OF b1 b2, where err = cannot_convert
        and mcpTools = "Some sample_primary" and e = sample_env and now = sample_timestamp
        and s = no_sse]
      h1 h2 h3 h4 k h5 g3 b3 b4 by simp
qed




text \<open>
  Claim C10. A handler that is found and invoked and returns \<open>null\<close> is answered with
  \<open>-32601\<close> and \<open>Unknown tool: <name>\<close>, and nothing is published. A \<open>tools/call\<close> that
  is answered with a result, or that publishes, has a handler that returned a value
  other than \<open>null\<close>.
\<close>

theorem null_result_is_unknown_tool:
  assumes "get_prop request ''id'' = Inr i"
    and "get_prop request ''method'' = Inr (JStr ''tools/call'')"
    and "get_prop request ''params'' = Inr params"
    and "get_prop params ''name'' = Inr toolName"
    and "get_prop params ''arguments'' = Inr a"
  shows "(to_str toolName = Inr k \<and>
          (resolve mcpTools (daaMcpTools e) k = Primary h \<or>
           resolve mcpTools (daaMcpTools e) k = Secondary h) \<and>
          h (if truthy a then a else JObj []) = Returns JNull \<longrightarrow>
            handleMcpRequest e now request mcpTools s =
              (Inr \<lparr>jsonrpc = ''2.0'', resp_id = i, result = None,
                    error = Some \<lparr>code = - 32601, message = ''Method not found'',
                                  data = JStr (''Unknown tool: '' @ k)\<rparr>\<rparr>, s)) \<and>
         (handleMcpRequest e now request mcpTools s = (Inr r, s') \<and>
          (result r \<noteq> None \<or> published s' \<noteq> published s) \<longrightarrow>
            (\<exists>g v key. to_str toolName = Inr key \<and>
                   (resolve mcpTools (daaMcpTools e) key = Primary g \<or>
                    resolve mcpTools (daaMcpTools e) key = Secondary g) \<and>
                   g (if truthy a then a else JObj []) = Returns v \<and> v \<noteq> JNull))"
proof (intro conjI impI)
  assume "to_str toolName = Inr k \<and>
          (resolve mcpTools (daaMcpTools e) k = Primary h \<or>
           resolve mcpTools (daaMcpTools e) k = Secondary h) \<and>
          h (if truthy a then a else JObj []) = Returns JNull"
  then show "handleMcpRequest e now request mcpTools s =
              (Inr \<lparr>jsonrpc = ''2.0'', resp_id = i, result = None,
                    error = Some \<lparr>code = - 32601, message = ''Method not found'',
                                  data = JStr (''Unknown tool: '' @ k)\<rparr>\<rparr>, s)"
    using assms by (auto simp: dispatcher_defs)
next
  assume h: "handleMcpRequest e now request mcpTools s = (Inr r, s') \<and>
          (result r \<noteq> None \<or> published s' \<noteq> published s)"
  show "\<exists>g v key. to_str toolName = Inr key \<and>
                   (resolve mcpTools (daaMcpTools e) key = Primary g \<or>
                    resolve mcpTools (daaMcpTools e) key = Secondary g) \<and>
                   g (if truthy a then a else JObj []) = Returns v \<and> v \<noteq> JNull"
  proof (cases "to_str toolName")
    case (Inl err)
    then show ?thesis using assms h by (auto simp: dispatcher_defs)
  next
    case (Inr key)
    show ?thesis
    proof (cases "resolve mcpTools (daaMcpTools e) key")
      case (Primary g)
      show ?thesis
      proof (cases "g (if truthy a then a else JObj [])")
        case (Returns v)
        then show ?thesis
          using assms h Inr Primary
          by (cases "v = JNull") (auto simp: dispatcher_defs split: sum.splits)
      next
        case (Throws t)
        then show ?thesis
          using assms h Inr Primary by (auto simp: dispatcher_defs split: sum.splits)
      qed
    next
      case (Secondary g)
      show ?thesis
      proof (cases "g (if truthy a then a else JObj [])")
        case (Returns v)
        then show ?thesis
          using assms h Inr Secondary
          by (cases "v = JNull") (auto simp: dispatcher_defs split: sum.splits)
      next
        case (Throws t)
        then show ?thesis
          using assms h Inr Secondary by (auto simp: dispatcher_defs split: sum.splits)
      qed
    next
      case NotFound
      then show ?thesis using assms h Inr by (auto simp: dispatcher_defs)
    qed
  qed
qed

theorem null_result_is_unknown_tool_witness:
  "resolve (Some sample_primary) (daaMcpTools sample_env) ''task_results'' =
     Primary (\<lambda>args. Returns JNull) \<and>
   handleMcpRequest sample_env sample_timestamp (call_json ''5'' ''task_results'')
       (Some sample_primary) no_sse =
     (Inr \<lparr>jsonrpc = ''2.0'', resp_id = JNum ''5'', result = None,
           error = Some \<lparr>code = - 32601, message = ''Method not found'',
                         data = JStr ''Unknown tool: task_results''\<rparr>\<rparr>, no_sse) \<and>
   handleMcpRequest sample_env sample_timestamp (call_json ''3'' ''swarm_status'')
       (Some sample_primary) no_sse = (Inr status_response, no_sse) \<and>
   (\<exists>g v key. to_str (JStr ''swarm_status'') = Inr key \<and>
           (resolve (Some sample_primary) (daaMcpTools sample_env) key = Primary g \<or>
            resolve (Some sample_primary) (daaMcpTools sample_env) key = Secondary g) \<and>
           g (JObj []) = Returns v \<and> v \<noteq> JNull)"
proof -
  let ?r = "call_json ''5'' ''task_results''"
  let ?p = "JObj [(''name'', JStr ''task_results''), (''arguments'', JObj [])]"
  let ?h = "\<lambda>args::jsval. Returns JNull"
  have h1: "get_prop ?r ''id'' = Inr (JNum ''5'')"
    and h2: "get_prop ?r ''method'' = Inr (JStr ''tools/call'')"
    and h3: "get_prop ?r ''params'' = Inr ?p"
    and h4: "get_prop ?p ''name'' = Inr (JStr ''task_results'')"
    and h5: "get_prop ?p ''arguments'' = Inr (JObj [])"
    by (simp_all add: call_json_def)
  have k: "to_str (JStr ''task_results'') = Inr ''task_results''" by simp
  have h6: "resolve (Some sample_primary) (daaMcpTools sample_env) ''task_results'' = Primary ?h"
    by (simp add: resolve_def sample_env_def sample_primary_def)
  let ?r' = "call_json ''3'' ''swarm_status''"
  let ?p' = "JObj [(''name'', JStr ''swarm_status''), (''arguments'', JObj [])]"
  have g1: "get_prop ?r' ''id'' = Inr (JNum ''3'')"
    and g2: "get_prop ?r' ''method'' = Inr (JStr ''tools/call'')"
    and g3: "get_prop ?r' ''params'' = Inr ?p'"
    and g4: "get_prop ?p' ''name'' = Inr (JStr ''swarm_status'')"
    and g5: "get_prop ?p' ''arguments'' = Inr (JObj [])"
    by (simp_all add: call_json_def)
  have g6: "handleMcpRequest sample_env sample_timestamp ?r' (Some sample_primary) no_sse =
      (Inr status_response, no_sse)"
    by (simp add: dispatcher_defs resolve_def sample_defs no_sse_def)
  have g7: "result status_response \<noteq> None" by (simp add: status_response_def)
  note a = null_result_is_unknown_tool [OF h1 h2 h3 h4 h5, where k = "''task_results''"
        and mcpTools = "Some sample_primary" and e = sample_env and h = ?h
        and now = sample_timestamp and s = no_sse]
  note b = null_result_is_unknown_tool [OF g1 g2 g3 g4 g5, where mcpTools = "Some sample_primary"
        and e = sample_env and now = sample_timestamp and s = no_sse
        and r = status_response and s' = no_sse]
  have c1: "handleMcpRequest sample_env sample_timestamp ?r (Some sample_primary) no_sse =
     (Inr \<lparr>jsonrpc = ''2.0'', resp_id = JNum ''5'', result = None,
           error = Some \<lparr>code = - 32601, message = ''Method not found'',
                         data = JStr ''Unknown tool: task_results''\<rparr>\<rparr>, no_sse)"
    using a k h6 by simp
  have c2: "\<exists>g v key. to_str (JStr ''swarm_status'') = Inr key \<and>
           (resolve (Some sample_primary) (daaMcpTools sample_env) key = Primary g \<or>
            resolve (Some sample_primary) (daaMcpTools sample_env) key = Secondary g) \<and>
           g (JObj []) = Returns v \<and> v \<noteq> JNull"
    using b g6 g7 by simp
  show ?thesis using h6 c1 g6 c2 by blast
qed

section \<open>Where the script departs from what it announces\<close>

text \<open>
  The facts below hold on every run, not only on the examples that follow: no
  sequence of inputs makes a stream carry \<open>tool:executed\<close>; a registry built by
  \<open>initializeSystem\<close> answers a DAA tool name with the function of \<open>daaMcpTools\<close>;
  a closing connection empties the emitter; and the end of stdin exits in every mode
  that started the stdio transport.
\<close>

lemma deaf_emit: "deaf_to_tool_executed s \<Longrightarrow> deaf_to_tool_executed (emit t d s)"
  by (force simp: deaf_to_tool_executed_def emit_def filter_empty_conv)

lemma deaf_finish:
  "deaf_to_tool_executed s \<Longrightarrow>
   deaf_to_tool_executed (snd (tools_call_finish e now r tn ta out s))"
  by (simp add: tools_call_finish_def Let_def deaf_emit split: sum.split outcome.split)

lemma deaf_resume:
  "deaf_to_tool_executed s \<Longrightarrow> deaf_to_tool_executed (snd (resume e now r tn ta out s))"
  using deaf_finish [of s e now r tn ta out]
  by (cases "tools_call_finish e now r tn ta out s")
    (auto simp: resume_def split: sum.split)

lemma deaf_http_reply:
  "deaf_to_tool_executed (sse w) \<Longrightarrow> deaf_to_tool_executed (sse (http_reply now name res w))"
  by (cases res) (simp_all add: bad_request_def deaf_emit)

lemma deaf_post:
  "deaf_to_tool_executed (sse w) \<Longrightarrow> deaf_to_tool_executed (sse (post_tools_call e now body w))"
  by (simp add: post_tools_call_def bad_request_def deaf_http_reply deaf_emit
      split: sum.split started.split)

lemma deaf_settle:
  assumes "deaf_to_tool_executed (sse w)"
  shows "deaf_to_tool_executed (sse (settle e now k w))"
proof (cases "k < length (pending w)")
  case False
  then show ?thesis using assms by (simp add: settle_def)
next
  case True
  show ?thesis
  proof (cases "pending w ! k")
    case (StdioTask line r0 tn ta out rest)
    obtain res s' where r: "resume e now r0 tn ta out (sse w) = (res, s')"
      by (cases "resume e now r0 tn ta out (sse w)")
    then have "deaf_to_tool_executed s'"
      using deaf_resume [OF assms, of e now r0 tn ta out] by simp
    then show ?thesis
      using True StdioTask r
      by (simp add: settle_def Let_def run_lines_fields answer_fields)
  next
    case (HttpTask r0 tn ta out)
    obtain res s' where r: "resume e now r0 tn ta out (sse w) = (res, s')"
      by (cases "resume e now r0 tn ta out (sse w)")
    then have "deaf_to_tool_executed s'"
      using deaf_resume [OF assms, of e now r0 tn ta out] by simp
    then show ?thesis
      using True HttpTask r
        deaf_http_reply [of "w\<lparr>pending := take k (pending w) @ drop (Suc k) (pending w),
          sse := s'\<rparr>" now tn res]
      by (simp add: settle_def Let_def)
  qed
qed

lemma deaf_connect:
  "deaf_to_tool_executed s \<Longrightarrow> deaf_to_tool_executed (sse_connect c now res s)"
  by (auto simp: deaf_to_tool_executed_def sse_connect_def)

lemma deaf_close:
  "deaf_to_tool_executed s \<Longrightarrow> deaf_to_tool_executed (sse_close c res s)"
  by (simp add: deaf_to_tool_executed_def sse_close_def)

lemma deaf_heartbeat:
  "deaf_to_tool_executed s \<Longrightarrow> deaf_to_tool_executed (sse_heartbeat res s)"
  by (simp add: deaf_to_tool_executed_def sse_heartbeat_def)

lemma deaf_step:
  "deaf_to_tool_executed (sse w) \<Longrightarrow> deaf_to_tool_executed (sse (step e i w))"
  by (cases i)
    (simp_all add: step_def on_end_def shutdown_def on_data_fields deaf_post deaf_connect
      deaf_close deaf_heartbeat deaf_settle)

lemma deaf_run:
  "deaf_to_tool_executed (sse w) \<Longrightarrow> deaf_to_tool_executed (sse (run e inputs w))"
  unfolding run_def by (induction inputs arbitrary: w) (simp_all add: deaf_step)

lemma deaf_main: "deaf_to_tool_executed (sse (main e args cfm))"
  by (simp add: boot_defs deaf_to_tool_executed_def Let_def)

lemma tool_executed_never_delivered:
  "filter is_tool_executed (map snd (wire (sse (run e inputs (main e args cfm))))) = []"
  using deaf_run [OF deaf_main]
  by (simp add: deaf_to_tool_executed_def)

lemma initializeSystem_daa:
  "k \<in> set daaToolNames \<Longrightarrow> daa k = Some (Fn g) \<Longrightarrow>
   resolve (Some (initializeSystem mcp daa)) daa k = Primary g"
  by (simp add: resolve_def initializeSystem_def)

lemma initializeSystem_other:
  "k \<notin> set daaToolNames \<Longrightarrow> initializeSystem mcp daa k = mcp k"
  by (simp add: initializeSystem_def)

lemma close_removes_all_listeners: "listeners (sse_close c res s) = []"
  by (simp add: sse_close_def)

lemma stdin_end_exits_whenever_stdio_started:
  "''--help'' \<notin> set args \<Longrightarrow> ''-h'' \<notin> set args \<Longrightarrow> mode_of args \<noteq> Http \<Longrightarrow>
   exited (step e StdinEnd (main e args cfm)) = Some 0"
  by (cases "mode_of args") (simp_all add: boot_defs step_def on_end_def Let_def)

lemma http_mode_ignores_stdin_end:
  "mode_of args = Http \<Longrightarrow> step e StdinEnd (main e args cfm) = main e args cfm"
  by (simp add: main_def boot_def startHttpServer_def step_def Let_def)

text \<open>
  Claim C1. With the HTTP server started, one client on \<open>GET /events\<close> and then one
  \<open>POST /api/tools/call\<close> for a tool that succeeds: the call is answered with 200 and
  the result, the client is still in \<open>sseClients\<close>, \<open>tool:executed\<close> is published twice
  (by the dispatcher and by the route), and the stream of the client holds the
  \<open>connected\<close> event and nothing else. No listener is ever registered under
  \<open>tool:executed\<close>, so the publication reaches no stream.
\<close>

theorem tool_executed_not_delivered:
  "http_replies (run sample_env
          [EventsOpen ''1751371200000'' sample_timestamp 1,
           PostToolsCall sample_timestamp body_status,
           ToolSettles sample_timestamp 0]
          (main sample_env [''--http''] None)) =
     [(200, ResultBody (JObj [(''content'',
         JArr [JObj [(''type'', JStr ''text''), (''text'', JStr status_text)]])]))] \<and>
   sseClients (sse (run sample_env
          [EventsOpen ''1751371200000'' sample_timestamp 1,
           PostToolsCall sample_timestamp body_status,
           ToolSettles sample_timestamp 0]
          (main sample_env [''--http''] None))) = [(''1751371200000'', 1)] \<and>
   map fst (published (sse (run sample_env
          [EventsOpen ''1751371200000'' sample_timestamp 1,
           PostToolsCall sample_timestamp body_status,
           ToolSettles sample_timestamp 0]
          (main sample_env [''--http''] None)))) = [''tool:executed'', ''tool:executed''] \<and>
   stream_of 1 (sse (run sample_env
          [EventsOpen ''1751371200000'' sample_timestamp 1,
           PostToolsCall sample_timestamp body_status,
           ToolSettles sample_timestamp 0]
          (main sample_env [''--http''] None))) =
     [Event ''connected''
        (JObj [(''clientId'', JStr ''1751371200000''), (''timestamp'', JStr sample_timestamp)])]"
  by (simp add: run_defs boot_defs sample_defs)

text \<open>
  Claim C2. Two clients connect and the first disconnects. Its heartbeat timer and its
  entry in \<open>sseClients\<close> are removed and the second client keeps both, but
  \<open>removeAllListeners()\<close> leaves the emitter without any listener: a \<open>swarm:update\<close>
  published afterwards does not reach the second client, which it would have reached
  before the disconnect.
\<close>

theorem disconnect_removes_every_listener:
  "sseClients (sse (run sample_env
          [EventsOpen ''1751371200000'' sample_timestamp 1,
           EventsOpen ''1751371200500'' sample_timestamp 2,
           EventsClose ''1751371200000'' 1]
          (main sample_env [''--http''] None))) = [(''1751371200500'', 2)] \<and>
   heartbeats (sse (run sample_env
          [EventsOpen ''1751371200000'' sample_timestamp 1,
           EventsOpen ''1751371200500'' sample_timestamp 2,
           EventsClose ''1751371200000'' 1]
          (main sample_env [''--http''] None))) = [2] \<and>
   listeners (sse (run sample_env
          [EventsOpen ''1751371200000'' sample_timestamp 1,
           EventsOpen ''1751371200500'' sample_timestamp 2]
          (main sample_env [''--http''] None))) =
     [(''swarm:update'', 1), (''agent:spawn'', 1), (''task:update'', 1),
      (''performance:metrics'', 1),
      (''swarm:update'', 2), (''agent:spawn'', 2), (''task:update'', 2),
      (''performance:metrics'', 2)] \<and>
   listeners (sse (run sample_env
          [EventsOpen ''1751371200000'' sample_timestamp 1,
           EventsOpen ''1751371200500'' sample_timestamp 2,
           EventsClose ''1751371200000'' 1]
          (main sample_env [''--http''] None))) = [] \<and>
   stream_of 2 (emit ''swarm:update'' (JObj [])
      (sse (run sample_env
          [EventsOpen ''1751371200000'' sample_timestamp 1,
           EventsOpen ''1751371200500'' sample_timestamp 2,
           EventsClose ''1751371200000'' 1]
          (main sample_env [''--http''] None)))) =
     [Event ''connected''
        (JObj [(''clientId'', JStr ''1751371200500''), (''timestamp'', JStr sample_timestamp)])] \<and>
   stream_of 2 (emit ''swarm:update'' (JObj [])
      (sse (run sample_env
          [EventsOpen ''1751371200000'' sample_timestamp 1,
           EventsOpen ''1751371200500'' sample_timestamp 2]
          (main sample_env [''--http''] None)))) =
     [Event ''connected''
        (JObj [(''clientId'', JStr ''1751371200500''), (''timestamp'', JStr sample_timestamp)]),
      Event ''swarm:update'' (JObj [])]"
  by (simp add: run_defs boot_defs)

text \<open>
  Claim C3. Started with \<open>--hybrid\<close>, the process serves HTTP and has the keep-alive
  interval set; the end of stdin runs \<open>process.exit(0)\<close> all the same, after which a
  posted call is no longer answered. Started with \<open>--http\<close>, the end of stdin changes
  nothing.
\<close>

theorem hybrid_exits_on_stdin_end:
  "http_serving (main sample_env [''--hybrid''] None) \<and>
   keep_alive (main sample_env [''--hybrid''] None) \<and>
   \<not> drained (main sample_env [''--hybrid''] None) \<and>
   exited (run sample_env [StdinEnd] (main sample_env [''--hybrid''] None)) = Some 0 \<and>
   \<not> http_serving (run sample_env [StdinEnd] (main sample_env [''--hybrid''] None)) \<and>
   http_replies (run sample_env [StdinEnd, PostToolsCall sample_timestamp body_status]
     (main sample_env [''--hybrid''] None)) = [] \<and>
   run sample_env [StdinEnd] (main sample_env [''--http''] None) =
     main sample_env [''--http''] None"
  by (simp add: run_defs boot_defs drained_def)

end
